theory Spec2Isabelle
  imports Complex_Main "HOL-Library.AList" "HOL-Library.Product_Lexorder"
begin

section \<open>NumPy floating-point values\<close>

text \<open>
  The arrays of the program hold IEEE doubles. A double is modelled as a real number or
  one of the three special values, so that the operations of NumPy that never raise
  (division by zero gives an infinity or a NaN, with a warning only) stay total in the
  model with the value the program computes. A finite result of an operation overflows
  to an infinity when its magnitude reaches \<open>2\<^sup>1\<^sup>0\<^sup>2\<^sup>4 - 2\<^sup>9\<^sup>7\<^sup>0\<close>, the least magnitude that
  rounds to an infinity (\<open>float64\<close>). Rounding to 53 bits, underflow and the sign of zero
  are not modelled: below the overflow threshold finite arithmetic is exact, and a zero
  divisor counts as \<open>+0.0\<close> (every zero divisor of the program is a norm, or a multiple or
  power of one).
\<close>

datatype npfloat = Fin real | PInf | NInf | NaN

definition overflow_threshold :: real where
  "overflow_threshold = 2 ^ 1024 - 2 ^ 970"

definition float64 :: "real \<Rightarrow> npfloat" where
  "float64 r = (if overflow_threshold \<le> r then PInf
                else if r \<le> - overflow_threshold then NInf else Fin r)"

definition signed_inf :: "real \<Rightarrow> npfloat" where
  "signed_inf a = (if a = 0 then NaN else if 0 < a then PInf else NInf)"

fun true_divide :: "npfloat \<Rightarrow> npfloat \<Rightarrow> npfloat" where
  "true_divide (Fin a) (Fin b) = (if b = 0 then signed_inf a else float64 (a / b))"
| "true_divide (Fin a) PInf = Fin 0"
| "true_divide (Fin a) NInf = Fin 0"
| "true_divide PInf (Fin b) = (if 0 \<le> b then PInf else NInf)"
| "true_divide NInf (Fin b) = (if 0 \<le> b then NInf else PInf)"
| "true_divide PInf PInf = NaN"
| "true_divide PInf NInf = NaN"
| "true_divide NInf PInf = NaN"
| "true_divide NInf NInf = NaN"
| "true_divide NaN _ = NaN"
| "true_divide _ NaN = NaN"

instantiation npfloat :: "{zero, one, plus, uminus, minus, times, inverse, power}"
begin

definition zero_npfloat :: npfloat where
  "zero_npfloat = Fin 0"

definition one_npfloat :: npfloat where
  "one_npfloat = Fin 1"

fun plus_npfloat :: "npfloat \<Rightarrow> npfloat \<Rightarrow> npfloat" where
  "plus_npfloat (Fin a) (Fin b) = float64 (a + b)"
| "plus_npfloat (Fin a) PInf = PInf"
| "plus_npfloat (Fin a) NInf = NInf"
| "plus_npfloat PInf (Fin b) = PInf"
| "plus_npfloat NInf (Fin b) = NInf"
| "plus_npfloat PInf PInf = PInf"
| "plus_npfloat NInf NInf = NInf"
| "plus_npfloat PInf NInf = NaN"
| "plus_npfloat NInf PInf = NaN"
| "plus_npfloat NaN _ = NaN"
| "plus_npfloat _ NaN = NaN"

fun uminus_npfloat :: "npfloat \<Rightarrow> npfloat" where
  "uminus_npfloat (Fin a) = Fin (- a)"
| "uminus_npfloat PInf = NInf"
| "uminus_npfloat NInf = PInf"
| "uminus_npfloat NaN = NaN"

definition minus_npfloat :: "npfloat \<Rightarrow> npfloat \<Rightarrow> npfloat" where
  "minus_npfloat a b = a + (- b)"

fun times_npfloat :: "npfloat \<Rightarrow> npfloat \<Rightarrow> npfloat" where
  "times_npfloat (Fin a) (Fin b) = float64 (a * b)"
| "times_npfloat (Fin a) PInf = signed_inf a"
| "times_npfloat (Fin a) NInf = signed_inf (- a)"
| "times_npfloat PInf (Fin b) = signed_inf b"
| "times_npfloat NInf (Fin b) = signed_inf (- b)"
| "times_npfloat PInf PInf = PInf"
| "times_npfloat PInf NInf = NInf"
| "times_npfloat NInf PInf = NInf"
| "times_npfloat NInf NInf = PInf"
| "times_npfloat NaN _ = NaN"
| "times_npfloat _ NaN = NaN"

definition divide_npfloat :: "npfloat \<Rightarrow> npfloat \<Rightarrow> npfloat" where
  "divide_npfloat a b = true_divide a b"

definition inverse_npfloat :: "npfloat \<Rightarrow> npfloat" where
  "inverse_npfloat a = true_divide (Fin 1) a"

instance ..

end

text \<open>\<^verbatim>\<open>np.sqrt\<close>, the comparisons (false as soon as a NaN is involved) and \<^verbatim>\<open>np.isfinite\<close>.\<close>

fun np_sqrt :: "npfloat \<Rightarrow> npfloat" where
  "np_sqrt (Fin a) = (if a < 0 then NaN else Fin (sqrt a))"
| "np_sqrt PInf = PInf"
| "np_sqrt NInf = NaN"
| "np_sqrt NaN = NaN"

fun np_less :: "npfloat \<Rightarrow> npfloat \<Rightarrow> bool" where
  "np_less (Fin a) (Fin b) = (a < b)"
| "np_less (Fin a) PInf = True"
| "np_less NInf (Fin b) = True"
| "np_less NInf PInf = True"
| "np_less _ _ = False"

fun np_equal :: "npfloat \<Rightarrow> npfloat \<Rightarrow> bool" where
  "np_equal (Fin a) (Fin b) = (a = b)"
| "np_equal PInf PInf = True"
| "np_equal NInf NInf = True"
| "np_equal (Fin a) PInf = False"
| "np_equal (Fin a) NInf = False"
| "np_equal PInf (Fin b) = False"
| "np_equal NInf (Fin b) = False"
| "np_equal PInf NInf = False"
| "np_equal NInf PInf = False"
| "np_equal NaN _ = False"
| "np_equal _ NaN = False"

fun isfinite :: "npfloat \<Rightarrow> bool" where
  "isfinite (Fin a) = True"
| "isfinite _ = False"

text \<open>
  \<^verbatim>\<open>np.isclose(a, b)\<close> with the default tolerances \<^verbatim>\<open>rtol=1e-5\<close>, \<^verbatim>\<open>atol=1e-8\<close>
  and \<^verbatim>\<open>equal_nan=False\<close>; \<^verbatim>\<open>np.allclose\<close> against a scalar.
\<close>

fun isclose :: "npfloat \<Rightarrow> npfloat \<Rightarrow> bool" where
  "isclose (Fin a) (Fin b) = (\<bar>a - b\<bar> \<le> 1 / 10 ^ 8 + 1 / 10 ^ 5 * \<bar>b\<bar>)"
| "isclose PInf PInf = True"
| "isclose NInf NInf = True"
| "isclose (Fin a) PInf = False"
| "isclose (Fin a) NInf = False"
| "isclose PInf (Fin b) = False"
| "isclose NInf (Fin b) = False"
| "isclose PInf NInf = False"
| "isclose NInf PInf = False"
| "isclose NaN _ = False"
| "isclose _ NaN = False"

definition allclose :: "npfloat list \<Rightarrow> npfloat \<Rightarrow> bool" where
  "allclose u b = list_all (\<lambda>a. isclose a b) u"

section \<open>Arrays\<close>

text \<open>
  A one-dimensional array is a list, a two-dimensional array the list of its rows.
\<close>

type_synonym vector = "npfloat list"
type_synonym matrix = "npfloat list list"

definition zeros :: "nat \<Rightarrow> vector" where
  "zeros n = replicate n (Fin 0)"

definition zeros2 :: "nat \<Rightarrow> nat \<Rightarrow> matrix" where
  "zeros2 n m = replicate n (replicate m (Fin 0))"

definition eye :: "nat \<Rightarrow> matrix" where
  "eye n = map (\<lambda>i. map (\<lambda>j. if i = j then Fin 1 else Fin 0) [0..<n]) [0..<n]"

definition np_sum :: "vector \<Rightarrow> npfloat" where
  "np_sum v = foldl (+) (Fin 0) v"

definition dot :: "vector \<Rightarrow> vector \<Rightarrow> npfloat" where
  "dot u v = np_sum (map2 (*) u v)"

definition ncols :: "'a list list \<Rightarrow> nat" where
  "ncols A = (case A of [] \<Rightarrow> 0 | r # _ \<Rightarrow> length r)"

definition column :: "'a list list \<Rightarrow> nat \<Rightarrow> 'a list" where
  "column A j = map (\<lambda>r. r ! j) A"

definition transpose_m :: "'a list list \<Rightarrow> 'a list list" where
  "transpose_m A = map (column A) [0..<ncols A]"

definition matvec :: "matrix \<Rightarrow> vector \<Rightarrow> vector" where
  "matvec A v = map (\<lambda>r. dot r v) A"

definition matmul :: "matrix \<Rightarrow> matrix \<Rightarrow> matrix" where
  "matmul A B = map (\<lambda>r. map (\<lambda>j. dot r (column B j)) [0..<ncols B]) A"

definition scale :: "npfloat \<Rightarrow> matrix \<Rightarrow> matrix" where
  "scale c A = map (map (\<lambda>e. c * e)) A"

definition mat_add :: "matrix \<Rightarrow> matrix \<Rightarrow> matrix" where
  "mat_add A B = map2 (map2 (+)) A B"

definition mat_neg :: "matrix \<Rightarrow> matrix" where
  "mat_neg A = map (map uminus) A"

text \<open>\<^verbatim>\<open>A[np.ix_(rs, cs)]\<close>: the sub-array on the rows \<open>rs\<close> and the columns \<open>cs\<close>.\<close>

definition ix :: "'a list list \<Rightarrow> nat list \<Rightarrow> nat list \<Rightarrow> 'a list list" where
  "ix A rs cs = map (\<lambda>r. map (\<lambda>c. A ! r ! c) cs) rs"

text \<open>
  \<^verbatim>\<open>A[np.ix_(rs, cs)] += B\<close>: NumPy reads the sub-array, adds \<open>B\<close> to the copy and
  writes the sums back, so every sum is taken with the entry of \<open>A\<close> before the
  statement, and an index that occurs twice keeps the sum written last.
\<close>

definition ix_add :: "matrix \<Rightarrow> nat list \<Rightarrow> nat list \<Rightarrow> matrix \<Rightarrow> matrix" where
  "ix_add A rs cs B =
     fold (\<lambda>(a, r) M. M[r := fold (\<lambda>(b, c) row. row[c := A ! r ! c + B ! a ! b])
                                  (enumerate 0 cs) (M ! r)])
          (enumerate 0 rs) A"

text \<open>\<^verbatim>\<open>A[r0:r0+n, c0:c0+m] = B\<close> for an \<open>n \<times> m\<close> array \<open>B\<close>.\<close>

definition set_block :: "matrix \<Rightarrow> nat \<Rightarrow> nat \<Rightarrow> matrix \<Rightarrow> matrix" where
  "set_block A r0 c0 B =
     fold (\<lambda>(i, brow) M. M[r0 + i := fold (\<lambda>(j, v) row. row[c0 + j := v])
                                           (enumerate 0 brow) (M ! (r0 + i))])
          (enumerate 0 B) A"

text \<open>\<^verbatim>\<open>scipy.linalg.block_diag(A, B)\<close>.\<close>

definition block_diag :: "matrix \<Rightarrow> matrix \<Rightarrow> matrix" where
  "block_diag A B =
     map (\<lambda>r. r @ replicate (ncols B) (Fin 0)) A @ map (\<lambda>r. replicate (ncols A) (Fin 0) @ r) B"

text \<open>\<^verbatim>\<open>np.cross\<close> of two 3-vectors, \<^verbatim>\<open>np.linalg.norm\<close> of a vector.\<close>

definition cross :: "vector \<Rightarrow> vector \<Rightarrow> vector" where
  "cross a b = [a ! 1 * b ! 2 - a ! 2 * b ! 1,
                a ! 2 * b ! 0 - a ! 0 * b ! 2,
                a ! 0 * b ! 1 - a ! 1 * b ! 0]"

definition norm_np :: "vector \<Rightarrow> npfloat" where
  "norm_np v = np_sqrt (np_sum (map (\<lambda>c. c * c) v))"

section \<open>Nodes, materials, sections\<close>

text \<open>
  Python objects that are shared and mutated live in a store: a \<open>Node\<close> is created once,
  the model's dictionary and the elements hold its address, and DOF-map generation
  writes \<open>dof_indices\<close> into the object. Field names carry the class as a prefix
  (\<open>node_x\<close> for \<open>Node.x\<close>, \<open>mat_E\<close> for \<open>Material.E\<close>, \<open>sec_A\<close> for \<open>Section.A\<close>).
\<close>

datatype error = ValueError | ZeroDivisionError | IndexError | KeyError | LinAlgError

record Node =
  node_id :: int
  node_x :: real
  node_y :: real
  node_z :: real
  dof_indices :: "nat list"

type_synonym addr = nat
type_synonym store = "addr \<Rightarrow> Node"

definition Node_init :: "int \<Rightarrow> real \<Rightarrow> real \<Rightarrow> real \<Rightarrow> Node" where
  "Node_init i x y z = \<lparr>node_id = i, node_x = x, node_y = y, node_z = z, dof_indices = []\<rparr>"

definition coords :: "Node \<Rightarrow> vector" where
  "coords n = [Fin (node_x n), Fin (node_y n), Fin (node_z n)]"

record Material =
  mat_E :: real
  mat_G :: real
  mat_nu :: real
  mat_rho :: real

text \<open>
  \<open>Material.__init__\<close>: the constants are Python floats, whose division raises
  \<open>ZeroDivisionError\<close> on a zero divisor.
\<close>

definition Material_init :: "real \<Rightarrow> real option \<Rightarrow> real option \<Rightarrow> real \<Rightarrow> error + Material" where
  "Material_init E G nu rho =
     (case (G, nu) of
        (Some g, Some n) \<Rightarrow> Inr \<lparr>mat_E = E, mat_G = g, mat_nu = n, mat_rho = rho\<rparr>
      | (Some g, None) \<Rightarrow>
          (if 2 * g = 0 then Inl ZeroDivisionError
           else Inr \<lparr>mat_E = E, mat_G = g, mat_nu = E / (2 * g) - 1, mat_rho = rho\<rparr>)
      | (None, Some n) \<Rightarrow>
          (if 2 * (1 + n) = 0 then Inl ZeroDivisionError
           else Inr \<lparr>mat_E = E, mat_G = E / (2 * (1 + n)), mat_nu = n, mat_rho = rho\<rparr>)
      | (None, None) \<Rightarrow> Inl ValueError)"

record Section =
  sec_A :: real
  sec_Iy :: real
  sec_Iz :: real
  sec_J :: real
  sec_Cw :: real

section \<open>The beam element\<close>

record Beam3D =
  node1 :: addr
  node2 :: addr
  material :: Material
  section_el :: Section

definition Beam3D_init :: "addr \<Rightarrow> addr \<Rightarrow> Material \<Rightarrow> Section \<Rightarrow> Beam3D" where
  "Beam3D_init n1 n2 m s = \<lparr>node1 = n1, node2 = n2, material = m, section_el = s\<rparr>"

definition vec_sub :: "vector \<Rightarrow> vector \<Rightarrow> vector" where
  "vec_sub u v = map2 (-) u v"

definition length_el :: "store \<Rightarrow> Beam3D \<Rightarrow> npfloat" where
  "length_el h el = norm_np (vec_sub (coords (h (node2 el))) (coords (h (node1 el))))"

definition direction_cosine_matrix :: "store \<Rightarrow> Beam3D \<Rightarrow> matrix" where
  "direction_cosine_matrix h el =
     (let L = length_el h el;
          diff = vec_sub (coords (h (node2 el))) (coords (h (node1 el)));
          x_local = map (\<lambda>d. d / L) diff;
          temp_vec = (if allclose (take 2 x_local) (Fin 0)
                      then [Fin 1, Fin 0, Fin 0] else [Fin 0, Fin 0, Fin 1]);
          y_local = cross temp_vec x_local;
          y_local = (if np_less (norm_np y_local) (Fin (1 / 10 ^ 6))
                     then cross [Fin 0, Fin 1, Fin 0] x_local else y_local);
          y_local = map (\<lambda>c. c / norm_np y_local) y_local;
          z_local = cross x_local y_local
      in transpose_m [x_local, y_local, z_local])"

definition transformation_matrix :: "store \<Rightarrow> Beam3D \<Rightarrow> matrix" where
  "transformation_matrix h el =
     (let R = direction_cosine_matrix h el;
          Rt = transpose_m R;
          T_node = eye 7;
          T_node = set_block T_node 0 0 Rt;
          T_node = set_block T_node 3 3 Rt
      in block_diag T_node T_node)"

text \<open>
  The two \<open>4 \<times> 4\<close> coefficient arrays that the source writes out several times: the
  Hermite bending pattern and the consistent geometric pattern.
\<close>

definition hermite_bending :: "npfloat \<Rightarrow> matrix" where
  "hermite_bending L =
     [[Fin 12, Fin 6 * L, Fin (- 12), Fin 6 * L],
      [Fin 6 * L, Fin 4 * L ^ 2, Fin (- 6) * L, Fin 2 * L ^ 2],
      [Fin (- 12), Fin (- 6) * L, Fin 12, Fin (- 6) * L],
      [Fin 6 * L, Fin 2 * L ^ 2, Fin (- 6) * L, Fin 4 * L ^ 2]]"

definition hermite_geometric :: "npfloat \<Rightarrow> matrix" where
  "hermite_geometric L =
     [[Fin 36, Fin 3 * L, Fin (- 36), Fin 3 * L],
      [Fin 3 * L, Fin 4 * L ^ 2, Fin (- 3) * L, - (L ^ 2)],
      [Fin (- 36), Fin (- 3) * L, Fin 36, Fin (- 3) * L],
      [Fin 3 * L, - (L ^ 2), Fin (- 3) * L, Fin 4 * L ^ 2]]"

definition local_stiffness_matrix :: "store \<Rightarrow> Beam3D \<Rightarrow> matrix" where
  "local_stiffness_matrix h el =
     (let E = mat_E (material el); G = mat_G (material el);
          A = sec_A (section_el el); Iy = sec_Iy (section_el el); Iz = sec_Iz (section_el el);
          J = sec_J (section_el el); Cw = sec_Cw (section_el el);
          L = length_el h el;
          k = zeros2 14 14;
          k_axial = scale (Fin E * Fin A / L) [[Fin 1, Fin (- 1)], [Fin (- 1), Fin 1]];
          k = ix_add k [0, 7] [0, 7] k_axial;
          k_w_bending = scale (Fin E * Fin Cw / L ^ 3) (hermite_bending L);
          k_w_sv = scale (Fin G * Fin J / (Fin 30 * L)) (hermite_geometric L);
          k_torsion = mat_add k_w_bending k_w_sv;
          k = ix_add k [3, 6, 10, 13] [3, 6, 10, 13] k_torsion;
          k_bending_z = scale (Fin E * Fin Iz / L ^ 3) (hermite_bending L);
          k = ix_add k [1, 5, 8, 12] [1, 5, 8, 12] k_bending_z;
          k_bending_y = scale (Fin E * Fin Iy / L ^ 3)
            [[Fin 12, Fin (- 6) * L, Fin (- 12), Fin (- 6) * L],
             [Fin (- 6) * L, Fin 4 * L ^ 2, Fin 6 * L, Fin 2 * L ^ 2],
             [Fin (- 12), Fin 6 * L, Fin 12, Fin 6 * L],
             [Fin (- 6) * L, Fin 2 * L ^ 2, Fin 6 * L, Fin 4 * L ^ 2]];
          k = ix_add k [2, 4, 9, 11] [2, 4, 9, 11] k_bending_y
      in k)"

definition global_stiffness_matrix :: "store \<Rightarrow> Beam3D \<Rightarrow> matrix" where
  "global_stiffness_matrix h el =
     (let k_local = local_stiffness_matrix h el;
          T = transformation_matrix h el
      in matmul (matmul (transpose_m T) k_local) T)"

text \<open>
  \<^verbatim>\<open>M[:, cs] *= c\<close> and \<^verbatim>\<open>M[rs, :] *= c\<close>, for index lists without repetition.
\<close>

definition scale_columns :: "matrix \<Rightarrow> nat list \<Rightarrow> npfloat \<Rightarrow> matrix" where
  "scale_columns M cs c = map (\<lambda>row. map (\<lambda>(j, e). if j \<in> set cs then e * c else e) (enumerate 0 row)) M"

definition scale_rows :: "matrix \<Rightarrow> nat list \<Rightarrow> npfloat \<Rightarrow> matrix" where
  "scale_rows M rs c = map (\<lambda>(i, row). if i \<in> set rs then map (\<lambda>e. e * c) row else row) (enumerate 0 M)"

text \<open>
  \<open>geometric_stiffness_matrix\<close>: the axial force arrives as a Python float (it may be an
  infinity or a NaN); \<open>r0_sq\<close> is a quotient of Python floats, which raises on \<open>A = 0\<close>.
\<close>

definition geometric_stiffness_matrix :: "store \<Rightarrow> Beam3D \<Rightarrow> npfloat \<Rightarrow> error + matrix" where
  "geometric_stiffness_matrix h el axial_force =
     (let L = length_el h el;
          P = axial_force;
          k_g = zeros2 14 14;
          kg_flex = scale (P / (Fin 30 * L)) (hermite_geometric L);
          k_g = ix_add k_g [1, 5, 8, 12] [1, 5, 8, 12] kg_flex;
          kg_flex_y = kg_flex;
          kg_flex_y = scale_columns kg_flex_y [1, 3] (Fin (- 1));
          kg_flex_y = scale_rows kg_flex_y [1, 3] (Fin (- 1));
          k_g = ix_add k_g [2, 4, 9, 11] [2, 4, 9, 11] kg_flex_y
      in if sec_A (section_el el) = 0 then Inl ZeroDivisionError
         else
           let r0_sq = (Fin (sec_Iy (section_el el)) + Fin (sec_Iz (section_el el)))
                         / Fin (sec_A (section_el el));
               kg_torsion = scale (P * r0_sq / (Fin 30 * L)) (hermite_geometric L);
               k_g = ix_add k_g [3, 6, 10, 13] [3, 6, 10, 13] kg_torsion
           in Inr k_g)"

definition global_geometric_stiffness_matrix :: "store \<Rightarrow> Beam3D \<Rightarrow> npfloat \<Rightarrow> error + matrix" where
  "global_geometric_stiffness_matrix h el axial_force =
     (case geometric_stiffness_matrix h el axial_force of
        Inl e \<Rightarrow> Inl e
      | Inr kg_local \<Rightarrow>
          let T = transformation_matrix h el
          in Inr (matmul (matmul (transpose_m T) kg_local) T))"

section \<open>The model\<close>

text \<open>
  A dictionary is an association list in insertion order with distinct keys
  (\<open>map_of\<close> looks a key up, \<open>AList.update\<close> stores), a Python set a list without
  repetition. \<open>nodes\<close> maps a node id to the address of the node object.
\<close>

record Model =
  nodes :: "(int \<times> addr) list"
  elements :: "Beam3D list"
  constraints :: "(int \<times> int list) list"
  loads :: "(int \<times> vector) list"
  ndof_per_node :: nat
  dof_map_generated :: bool
  total_dofs :: nat

definition Model_init :: Model where
  "Model_init = \<lparr>nodes = [], elements = [], constraints = [], loads = [],
                 ndof_per_node = 7, dof_map_generated = False, total_dofs = 0\<rparr>"

definition add_node :: "store \<Rightarrow> Model \<Rightarrow> addr \<Rightarrow> error + Model" where
  "add_node h m node =
     (if node_id (h node) \<in> fst ` set (nodes m) then Inl ValueError
      else Inr (m\<lparr>nodes := nodes m @ [(node_id (h node), node)], dof_map_generated := False\<rparr>))"

definition add_element :: "Model \<Rightarrow> Beam3D \<Rightarrow> Model" where
  "add_element m element = m\<lparr>elements := elements m @ [element]\<rparr>"

definition add_constraint :: "Model \<Rightarrow> int \<Rightarrow> int \<Rightarrow> error + Model" where
  "add_constraint m nid dof_index =
     (if nid \<notin> fst ` set (nodes m) then Inl ValueError
      else
        let cs = (case map_of (constraints m) nid of None \<Rightarrow> [] | Some ds \<Rightarrow> ds)
        in Inr (m\<lparr>constraints := AList.update nid (List.insert dof_index cs) (constraints m)\<rparr>))"

text \<open>
  \<open>add_load\<close>: the in-place sum broadcasts a load vector of length 7 or 1 over the seven
  components and raises on any other length.
\<close>

definition add_load :: "Model \<Rightarrow> int \<Rightarrow> vector \<Rightarrow> error + Model" where
  "add_load m nid load_vector =
     (if nid \<notin> fst ` set (nodes m) then Inl ValueError
      else
        let cur = (case map_of (loads m) nid of None \<Rightarrow> zeros 7 | Some v \<Rightarrow> v)
        in if length load_vector = length cur
           then Inr (m\<lparr>loads := AList.update nid (map2 (+) cur load_vector) (loads m)\<rparr>)
           else if length load_vector = 1
           then Inr (m\<lparr>loads := AList.update nid (map (\<lambda>c. c + hd load_vector) cur) (loads m)\<rparr>)
           else Inl ValueError)"

text \<open>
  \<open>_generate_dof_map\<close>: the loop over the sorted ids carries the store and
  \<open>current_dof\<close>. Every id of the loop is a key of \<open>nodes\<close>, so the lookup finds it.
\<close>

definition assign_dofs :: "Model \<Rightarrow> int \<Rightarrow> store \<times> nat \<Rightarrow> store \<times> nat" where
  "assign_dofs m nid = (\<lambda>(h, current_dof).
     (case map_of (nodes m) nid of
        None \<Rightarrow> (h, current_dof)
      | Some node \<Rightarrow>
          (h(node := (h node)\<lparr>dof_indices := [current_dof..<current_dof + ndof_per_node m]\<rparr>),
           current_dof + ndof_per_node m)))"

definition generate_dof_map :: "store \<Rightarrow> Model \<Rightarrow> store \<times> Model" where
  "generate_dof_map h m =
     (let sorted_node_ids = sort (map fst (nodes m));
          (h', current_dof) = fold (assign_dofs m) sorted_node_ids (h, 0)
      in (h', m\<lparr>total_dofs := current_dof, dof_map_generated := True\<rparr>))"

definition ensure_dof_map :: "store \<Rightarrow> Model \<Rightarrow> store \<times> Model" where
  "ensure_dof_map h m = (if \<not> dof_map_generated m then generate_dof_map h m else (h, m))"

text \<open>
  The scatter of one element matrix: indexing raises \<open>IndexError\<close> on an index outside
  the array, the sum raises \<open>ValueError\<close> when the \<open>14 \<times> 14\<close> element matrix does not
  fit the indexed sub-array (a node that was never given its seven indices).
\<close>

definition scatter_add :: "matrix \<Rightarrow> nat list \<Rightarrow> matrix \<Rightarrow> error + matrix" where
  "scatter_add K dofs k_el =
     (if \<exists>d \<in> set dofs. length K \<le> d then Inl IndexError
      else if length dofs \<noteq> length k_el then Inl ValueError
      else Inr (ix_add K dofs dofs k_el))"

definition element_dofs :: "store \<Rightarrow> Beam3D \<Rightarrow> nat list" where
  "element_dofs h el = dof_indices (h (node1 el)) @ dof_indices (h (node2 el))"

fun assemble_loop :: "store \<Rightarrow> Beam3D list \<Rightarrow> matrix \<Rightarrow> error + matrix" where
  "assemble_loop h [] K = Inr K"
| "assemble_loop h (el # els) K =
     (case scatter_add K (element_dofs h el) (global_stiffness_matrix h el) of
        Inl e \<Rightarrow> Inl e
      | Inr K' \<Rightarrow> assemble_loop h els K')"

definition assemble_stiffness :: "store \<Rightarrow> Model \<Rightarrow> error + store \<times> Model \<times> matrix" where
  "assemble_stiffness h m =
     (let (h, m) = ensure_dof_map h m
      in case assemble_loop h (elements m) (zeros2 (total_dofs m) (total_dofs m)) of
           Inl e \<Rightarrow> Inl e
         | Inr K \<Rightarrow> Inr (h, m, K))"

definition np_abs :: "npfloat \<Rightarrow> npfloat" where
  "np_abs a = (case a of Fin r \<Rightarrow> Fin \<bar>r\<bar> | PInf \<Rightarrow> PInf | NInf \<Rightarrow> PInf | NaN \<Rightarrow> NaN)"

fun assemble_geometric_loop :: "store \<Rightarrow> Beam3D list \<Rightarrow> vector \<Rightarrow> matrix \<Rightarrow> error + matrix" where
  "assemble_geometric_loop h [] forces Kg = Inr Kg"
| "assemble_geometric_loop h (el # els) [] Kg = Inl IndexError"
| "assemble_geometric_loop h (el # els) (P # forces) Kg =
     (if np_less (np_abs P) (Fin (1 / 10 ^ 9)) then assemble_geometric_loop h els forces Kg
      else
        case global_geometric_stiffness_matrix h el P of
          Inl e \<Rightarrow> Inl e
        | Inr kg_el_global \<Rightarrow>
            (case scatter_add Kg (element_dofs h el) kg_el_global of
               Inl e \<Rightarrow> Inl e
             | Inr Kg' \<Rightarrow> assemble_geometric_loop h els forces Kg'))"

text \<open>\<open>assemble_geometric_stiffness\<close> on a list of axial forces in element order.\<close>

definition assemble_geometric_stiffness ::
    "store \<Rightarrow> Model \<Rightarrow> vector \<Rightarrow> error + store \<times> Model \<times> matrix" where
  "assemble_geometric_stiffness h m element_axial_forces =
     (let (h, m) = ensure_dof_map h m
      in case assemble_geometric_loop h (elements m) element_axial_forces
                (zeros2 (total_dofs m) (total_dofs m)) of
           Inl e \<Rightarrow> Inl e
         | Inr Kg \<Rightarrow> Inr (h, m, Kg))"

text \<open>\<^verbatim>\<open>F[dofs] += load\<close> on a vector, with the errors of the indexing and of the sum.\<close>

definition vec_scatter_add :: "vector \<Rightarrow> nat list \<Rightarrow> vector \<Rightarrow> error + vector" where
  "vec_scatter_add F dofs load =
     (if \<exists>d \<in> set dofs. length F \<le> d then Inl IndexError
      else if length dofs \<noteq> length load then Inl ValueError
      else Inr (fold (\<lambda>(d, l) F'. F'[d := F ! d + l]) (zip dofs load) F))"

fun load_loop :: "store \<Rightarrow> Model \<Rightarrow> (int \<times> vector) list \<Rightarrow> vector \<Rightarrow> error + vector" where
  "load_loop h m [] F = Inr F"
| "load_loop h m ((nid, load) # rest) F =
     (case map_of (nodes m) nid of
        None \<Rightarrow> Inl KeyError
      | Some node \<Rightarrow>
          (case vec_scatter_add F (dof_indices (h node)) load of
             Inl e \<Rightarrow> Inl e
           | Inr F' \<Rightarrow> load_loop h m rest F'))"

definition get_load_vector :: "store \<Rightarrow> Model \<Rightarrow> error + store \<times> Model \<times> vector" where
  "get_load_vector h m =
     (let (h, m) = ensure_dof_map h m
      in case load_loop h m (loads m) (zeros (total_dofs m)) of
           Inl e \<Rightarrow> Inl e
         | Inr F \<Rightarrow> Inr (h, m, F))"

text \<open>
  Python list indexing \<^verbatim>\<open>xs[d]\<close>: a negative index counts from the end, an index
  outside \<open>[-len, len)\<close> raises \<open>IndexError\<close>.
\<close>

definition py_index :: "'a list \<Rightarrow> int \<Rightarrow> error + 'a" where
  "py_index xs d =
     (let n = int (length xs); j = (if d < 0 then d + n else d)
      in if 0 \<le> j \<and> j < n then Inr (xs ! nat j) else Inl IndexError)"

fun index_loop :: "nat list \<Rightarrow> int list \<Rightarrow> nat list \<Rightarrow> error + nat list" where
  "index_loop dof_list [] constrained = Inr constrained"
| "index_loop dof_list (d # ds) constrained =
     (case py_index dof_list d of
        Inl e \<Rightarrow> Inl e
      | Inr g \<Rightarrow> index_loop dof_list ds (constrained @ [g]))"

fun constraint_loop :: "store \<Rightarrow> Model \<Rightarrow> (int \<times> int list) list \<Rightarrow> nat list \<Rightarrow> error + nat list" where
  "constraint_loop h m [] constrained = Inr constrained"
| "constraint_loop h m ((nid, dofs) # rest) constrained =
     (case map_of (nodes m) nid of
        None \<Rightarrow> Inl KeyError
      | Some node \<Rightarrow>
          (case index_loop (dof_indices (h node)) dofs constrained of
             Inl e \<Rightarrow> Inl e
           | Inr constrained' \<Rightarrow> constraint_loop h m rest constrained'))"

text \<open>\<^verbatim>\<open>np.unique\<close>: the sorted list of the distinct values.\<close>

definition unique :: "nat list \<Rightarrow> nat list" where
  "unique xs = sort (remdups xs)"

definition get_constrained_dofs :: "store \<Rightarrow> Model \<Rightarrow> error + store \<times> Model \<times> nat list" where
  "get_constrained_dofs h m =
     (let (h, m) = ensure_dof_map h m
      in case constraint_loop h m (constraints m) [] of
           Inl e \<Rightarrow> Inl e
         | Inr constrained \<Rightarrow> Inr (h, m, unique constrained))"

section \<open>The static solver\<close>

text \<open>
  \<^verbatim>\<open>np.setdiff1d(np.arange(n), constrained)\<close>, and the assignment
  \<^verbatim>\<open>u[free_dofs] = u_f\<close>, which raises when the lengths differ (a single value is
  broadcast).
\<close>

definition setdiff1d_arange :: "nat \<Rightarrow> nat list \<Rightarrow> nat list" where
  "setdiff1d_arange n constrained = filter (\<lambda>i. i \<notin> set constrained) [0..<n]"

definition vec_assign :: "vector \<Rightarrow> nat list \<Rightarrow> vector \<Rightarrow> error + vector" where
  "vec_assign u idx vals =
     (if length vals = length idx then Inr (fold (\<lambda>(i, v) u'. u'[i := v]) (zip idx vals) u)
      else if length vals = 1 then Inr (fold (\<lambda>i u'. u'[i := hd vals]) idx u)
      else Inl ValueError)"

text \<open>
  \<open>StaticSolver.solve\<close>. The dense solver \<^verbatim>\<open>np.linalg.solve\<close> is a parameter
  \<open>linalg_solve\<close> of the model: it returns a vector or raises (\<open>LinAlgError\<close> on a
  singular matrix).
\<close>

type_synonym linalg_solve = "matrix \<Rightarrow> vector \<Rightarrow> error + vector"

definition StaticSolver_solve ::
    "linalg_solve \<Rightarrow> store \<Rightarrow> Model \<Rightarrow> error + store \<times> Model \<times> vector" where
  "StaticSolver_solve linalg_solve h m =
     (let (h, m) = generate_dof_map h m
      in case assemble_stiffness h m of Inl e \<Rightarrow> Inl e | Inr (h, m, K) \<Rightarrow>
        (case get_load_vector h m of Inl e \<Rightarrow> Inl e | Inr (h, m, F) \<Rightarrow>
          (case get_constrained_dofs h m of Inl e \<Rightarrow> Inl e | Inr (h, m, constrained_dofs) \<Rightarrow>
            (let free_dofs = setdiff1d_arange (total_dofs m) constrained_dofs
             in if length free_dofs = 0 then Inr (h, m, zeros (total_dofs m))
                else
                  let K_ff = ix K free_dofs free_dofs;
                      F_f = map (\<lambda>i. F ! i) free_dofs
                  in case linalg_solve K_ff F_f of Inl e \<Rightarrow> Inl e | Inr u_f \<Rightarrow>
                    (case vec_assign (zeros (total_dofs m)) free_dofs u_f of
                       Inl e \<Rightarrow> Inl e
                     | Inr u \<Rightarrow> Inr (h, m, u))))))"

text \<open>
  \<open>compute_element_forces\<close>: \<^verbatim>\<open>u[dofs]\<close> raises on an index outside \<open>u\<close>, the product
  \<^verbatim>\<open>T @ u_global\<close> on a vector that has not 14 components.
\<close>

fun forces_loop :: "store \<Rightarrow> Beam3D list \<Rightarrow> vector \<Rightarrow> error + vector list" where
  "forces_loop h [] u = Inr []"
| "forces_loop h (el # els) u =
     (let dofs = element_dofs h el
      in if \<exists>d \<in> set dofs. length u \<le> d then Inl IndexError
         else
           let u_global = map (\<lambda>d. u ! d) dofs;
               T = transformation_matrix h el
           in if length u_global \<noteq> ncols T then Inl ValueError
              else
                let u_local = matvec T u_global;
                    k_local = local_stiffness_matrix h el;
                    f_local = matvec k_local u_local
                in case forces_loop h els u of
                     Inl e \<Rightarrow> Inl e
                   | Inr forces \<Rightarrow> Inr (f_local # forces))"

definition compute_element_forces :: "store \<Rightarrow> Model \<Rightarrow> vector \<Rightarrow> error + vector list" where
  "compute_element_forces h m u = forces_loop h (elements m) u"

section \<open>The buckling solver\<close>

text \<open>
  A complex double, with \<^verbatim>\<open>np.real\<close>, \<^verbatim>\<open>np.imag\<close>, \<^verbatim>\<open>np.isreal\<close> (the imaginary
  part equals zero) and \<^verbatim>\<open>np.isfinite\<close>.
\<close>

datatype complex128 = Complex128 npfloat npfloat

fun np_real :: "complex128 \<Rightarrow> npfloat" where
  "np_real (Complex128 a b) = a"

fun np_imag :: "complex128 \<Rightarrow> npfloat" where
  "np_imag (Complex128 a b) = b"

definition isreal :: "complex128 \<Rightarrow> bool" where
  "isreal v = np_equal (np_imag v) (Fin 0)"

definition isfinite_c :: "complex128 \<Rightarrow> bool" where
  "isfinite_c v = (isfinite (np_real v) \<and> isfinite (np_imag v))"

text \<open>
  The order in which NumPy sorts doubles: ascending, the NaNs last. \<^verbatim>\<open>np.argsort\<close>
  is taken to be stable (the order it gives to equal values is not fixed by NumPy).
\<close>

fun sort_rank :: "npfloat \<Rightarrow> nat \<times> real" where
  "sort_rank NInf = (0, 0)"
| "sort_rank (Fin r) = (1, r)"
| "sort_rank PInf = (2, 0)"
| "sort_rank NaN = (3, 0)"

definition argsort :: "vector \<Rightarrow> nat list" where
  "argsort v = sort_key (\<lambda>i. sort_rank (v ! i)) [0..<length v]"

text \<open>The slice \<^verbatim>\<open>xs[:n]\<close> of Python, for any integer \<open>n\<close>.\<close>

definition slice_to :: "'a list \<Rightarrow> int \<Rightarrow> 'a list" where
  "slice_to xs n = (if 0 \<le> n then take (nat n) xs else take (length xs - nat (- n)) xs)"

definition take_columns :: "'a list list \<Rightarrow> nat list \<Rightarrow> 'a list list" where
  "take_columns M idx = map (\<lambda>row. map (\<lambda>i. row ! i) idx) M"

text \<open>
  The eigenvalue test of \<open>BucklingSolver.solve\<close>, and the part of the method after the
  call of \<^verbatim>\<open>scipy.linalg.eig\<close>: filter, sort, truncate.
\<close>

definition valid_eigenvalue :: "complex128 \<Rightarrow> bool" where
  "valid_eigenvalue v \<longleftrightarrow> isreal v \<and> np_less (Fin (1 / 10 ^ 6)) (np_real v) \<and> isfinite_c v"

definition select_modes ::
    "complex128 list \<Rightarrow> complex128 list list \<Rightarrow> int \<Rightarrow> vector \<times> complex128 list list" where
  "select_modes vals vecs num_modes =
     (let valid_indices = filter (\<lambda>i. valid_eigenvalue (vals ! i)) [0..<length vals]
      in if valid_indices = [] then ([], [])
         else
           let valid_vals = map (\<lambda>i. np_real (vals ! i)) valid_indices;
               valid_vecs = take_columns vecs valid_indices;
               idx = argsort valid_vals;
               sorted_vals = map (\<lambda>i. valid_vals ! i) idx;
               sorted_vecs = take_columns valid_vecs idx
           in (slice_to sorted_vals num_modes, map (\<lambda>row. slice_to row num_modes) sorted_vecs))"

text \<open>
  \<open>BucklingSolver.solve\<close>. The generalized eigen-solver \<^verbatim>\<open>scipy.linalg.eig\<close> is a
  parameter \<open>eig\<close> of the model: it returns the eigenvalues and the matrix whose columns
  are the eigenvectors, or raises.
\<close>

type_synonym eig_solver = "matrix \<Rightarrow> matrix \<Rightarrow> error + complex128 list \<times> complex128 list list"

definition BucklingSolver_solve ::
    "eig_solver \<Rightarrow> linalg_solve \<Rightarrow> store \<Rightarrow> Model \<Rightarrow> int \<Rightarrow>
       error + store \<times> Model \<times> vector \<times> complex128 list list \<times> nat list" where
  "BucklingSolver_solve eig linalg_solve h m num_modes =
     (case StaticSolver_solve linalg_solve h m of Inl e \<Rightarrow> Inl e | Inr (h, m, u_static) \<Rightarrow>
       (case compute_element_forces h m u_static of Inl e \<Rightarrow> Inl e | Inr element_forces \<Rightarrow>
         (let axial_forces = map (\<lambda>f. f ! 7) element_forces
          in case assemble_stiffness h m of Inl e \<Rightarrow> Inl e | Inr (h, m, K) \<Rightarrow>
            (case assemble_geometric_stiffness h m axial_forces of Inl e \<Rightarrow> Inl e | Inr (h, m, Kg) \<Rightarrow>
              (case get_constrained_dofs h m of Inl e \<Rightarrow> Inl e | Inr (h, m, constrained_dofs) \<Rightarrow>
                (let free_dofs = setdiff1d_arange (total_dofs m) constrained_dofs;
                     K_ff = ix K free_dofs free_dofs;
                     Kg_ff = ix Kg free_dofs free_dofs
                 in case eig K_ff (mat_neg Kg_ff) of Inl e \<Rightarrow> Inl e | Inr (vals, vecs) \<Rightarrow>
                   (let (sel_vals, sel_vecs) = select_modes vals vecs num_modes
                    in Inr (h, m, sel_vals, sel_vecs, free_dofs))))))))"

section \<open>Example objects\<close>

text \<open>
  The two-node cantilever of the unit tests: node objects at the addresses 11 and 12, one
  element along the global x-axis; a third node on the y-axis, a fourth one that repeats
  the coordinates of the first, and a fifth one on the x-axis at the distance \<open>2\<^sup>6\<^sup>0\<^sup>0\<close>
  from the first, whose square is beyond the doubles.
\<close>

definition store0 :: store where
  "store0 = (\<lambda>_. Node_init 0 0 0 0)
     (11 := Node_init 1 0 0 0, 12 := Node_init 2 1 0 0, 13 := Node_init 3 0 1 0,
      14 := Node_init 4 0 0 0, 15 := Node_init 5 (2 ^ 600) 0 0)"

definition material0 :: Material where
  "material0 = \<lparr>mat_E = 100000, mat_G = 100000 / (2 * (1 + 3 / 10)), mat_nu = 3 / 10, mat_rho = 0\<rparr>"

definition section0 :: Section where
  "section0 = \<lparr>sec_A = 1, sec_Iy = 1, sec_Iz = 1, sec_J = 1, sec_Cw = 1\<rparr>"

definition beam0 :: Beam3D where
  "beam0 = Beam3D_init 11 12 material0 section0"

definition beam_far :: Beam3D where
  "beam_far = Beam3D_init 11 15 material0 section0"


definition cantilever :: "(int \<times> int list) list \<Rightarrow> (int \<times> vector) list \<Rightarrow> Model" where
  "cantilever cs ls = \<lparr>nodes = [(1, 11), (2, 12)], elements = [beam0], constraints = cs,
     loads = ls, ndof_per_node = 7, dof_map_generated = False, total_dofs = 0\<rparr>"

text \<open>
  The model of \<open>test_static_axial\<close>: node 1 fixed, node 2 free along x only, the load
  \<open>100\<close> along x at node 2; the same model without a load; and a model that holds the two
  nodes in the other insertion order.
\<close>

definition axial_constraints :: "(int \<times> int list) list" where
  "axial_constraints = [(1, [6, 5, 4, 3, 2, 1, 0]), (2, [6, 5, 4, 3, 2, 1])]"

definition axial_model :: Model where
  "axial_model = cantilever axial_constraints [(2, [Fin 100, Fin 0, Fin 0, Fin 0, Fin 0, Fin 0, Fin 0])]"

definition unloaded_model :: Model where
  "unloaded_model = cantilever axial_constraints []"

definition swapped_model :: Model where
  "swapped_model = \<lparr>nodes = [(2, 12), (1, 11)], elements = [beam0], constraints = [],
     loads = [], ndof_per_node = 7, dof_map_generated = False, total_dofs = 0\<rparr>"

text \<open>
  The store and the cantilever after DOF-map generation, the element stiffness matrix of
  \<open>beam0\<close> in numbers, the constrained DOFs and the load vector of \<open>axial_model\<close>, and a
  dense solver for systems of one equation.
\<close>

definition store1 :: store where
  "store1 = store0(11 := (Node_init 1 0 0 0)\<lparr>dof_indices := [0..<7]\<rparr>,
                   12 := (Node_init 2 1 0 0)\<lparr>dof_indices := [7..<14]\<rparr>)"

definition generated :: "Model \<Rightarrow> Model" where
  "generated m = m\<lparr>total_dofs := 14, dof_map_generated := True\<rparr>"

definition k_beam0 :: matrix where
  "k_beam0 =
 [[Fin 100000, Fin 0, Fin 0, Fin 0, Fin 0, Fin 0, Fin 0, Fin (- 100000),
   Fin 0, Fin 0, Fin 0, Fin 0, Fin 0, Fin 0],
  [Fin 0, Fin 1200000, Fin 0, Fin 0, Fin 0, Fin 600000, Fin 0, Fin 0,
   Fin (- 1200000), Fin 0, Fin 0, Fin 0, Fin 600000, Fin 0],
  [Fin 0, Fin 0, Fin 1200000, Fin 0, Fin (- 600000), Fin 0, Fin 0, Fin 0,
   Fin 0, Fin (- 1200000), Fin 0, Fin (- 600000), Fin 0, Fin 0],
  [Fin 0, Fin 0, Fin 0, Fin (16200000 / 13), Fin 0, Fin 0,
   Fin (7850000 / 13), Fin 0, Fin 0, Fin 0, Fin (- (16200000 / 13)),
   Fin 0, Fin 0, Fin (7850000 / 13)],
  [Fin 0, Fin 0, Fin (- 600000), Fin 0, Fin 400000, Fin 0, Fin 0, Fin 0,
   Fin 0, Fin 600000, Fin 0, Fin 200000, Fin 0, Fin 0],
  [Fin 0, Fin 600000, Fin 0, Fin 0, Fin 0, Fin 400000, Fin 0, Fin 0,
   Fin (- 600000), Fin 0, Fin 0, Fin 0, Fin 200000, Fin 0],
  [Fin 0, Fin 0, Fin 0, Fin (7850000 / 13), Fin 0, Fin 0,
   Fin (15800000 / 39), Fin 0, Fin 0, Fin 0, Fin (- (7850000 / 13)),
   Fin 0, Fin 0, Fin (7750000 / 39)],
  [Fin (- 100000), Fin 0, Fin 0, Fin 0, Fin 0, Fin 0, Fin 0, Fin 100000,
   Fin 0, Fin 0, Fin 0, Fin 0, Fin 0, Fin 0],
  [Fin 0, Fin (- 1200000), Fin 0, Fin 0, Fin 0, Fin (- 600000), Fin 0,
   Fin 0, Fin 1200000, Fin 0, Fin 0, Fin 0, Fin (- 600000), Fin 0],
  [Fin 0, Fin 0, Fin (- 1200000), Fin 0, Fin 600000, Fin 0, Fin 0, Fin 0,
   Fin 0, Fin 1200000, Fin 0, Fin 600000, Fin 0, Fin 0],
  [Fin 0, Fin 0, Fin 0, Fin (- (16200000 / 13)), Fin 0, Fin 0,
   Fin (- (7850000 / 13)), Fin 0, Fin 0, Fin 0, Fin (16200000 / 13),
   Fin 0, Fin 0, Fin (- (7850000 / 13))],
  [Fin 0, Fin 0, Fin (- 600000), Fin 0, Fin 200000, Fin 0, Fin 0, Fin 0,
   Fin 0, Fin 600000, Fin 0, Fin 400000, Fin 0, Fin 0],
  [Fin 0, Fin 600000, Fin 0, Fin 0, Fin 0, Fin 200000, Fin 0, Fin 0,
   Fin (- 600000), Fin 0, Fin 0, Fin 0, Fin 400000, Fin 0],
  [Fin 0, Fin 0, Fin 0, Fin (7850000 / 13), Fin 0, Fin 0,
   Fin (7750000 / 39), Fin 0, Fin 0, Fin 0, Fin (- (7850000 / 13)),
   Fin 0, Fin 0, Fin (15800000 / 39)]]"

definition axial_cd :: "nat list" where
  "axial_cd = [0, 1, 2, 3, 4, 5, 6, 8, 9, 10, 11, 12, 13]"

definition axial_F :: vector where
  "axial_F = [Fin 0, Fin 0, Fin 0, Fin 0, Fin 0, Fin 0, Fin 0, Fin 100, Fin 0, Fin 0, Fin 0,
              Fin 0, Fin 0, Fin 0]"

fun solve_1x1 :: linalg_solve where
  "solve_1x1 [[a]] [f] = (if np_equal a (Fin 0) then Inl LinAlgError else Inr [f / a])"
| "solve_1x1 _ _ = Inl LinAlgError"

section \<open>Auxiliary notions for the proofs\<close>

text \<open>
  The invariant of a model that was built with \<open>add_node\<close>: the dictionary has distinct
  keys, every node object is registered under its own id, and seven DOFs per node.
\<close>

definition model_inv :: "store \<Rightarrow> Model \<Rightarrow> bool" where
  "model_inv h m \<longleftrightarrow>
     distinct (map fst (nodes m)) \<and> (\<forall>(k, a) \<in> set (nodes m). node_id (h a) = k) \<and>
     ndof_per_node m = 7"

text \<open>
  Every registered node holds seven DOF indices (the state after DOF-map generation); the
  constraint registry only has keys that are node ids (\<open>add_constraint\<close> checks it);
  the local DOF that Python's indexing of a seven-entry list reaches from an index in
  \<open>[-7, 7)\<close>.
\<close>

definition dofs_assigned :: "store \<Rightarrow> Model \<Rightarrow> bool" where
  "dofs_assigned h m \<longleftrightarrow> (\<forall>(k, a) \<in> set (nodes m). length (dof_indices (h a)) = 7)"

definition constraints_inv :: "Model \<Rightarrow> bool" where
  "constraints_inv m \<longleftrightarrow> (\<forall>(k, ds) \<in> set (constraints m). k \<in> fst ` set (nodes m))"

definition in_range :: "int \<Rightarrow> bool" where
  "in_range d \<longleftrightarrow> - 7 \<le> d \<and> d < 7"

definition local_dof :: "int \<Rightarrow> nat" where
  "local_dof d = nat (if d < 0 then d + 7 else d)"

text \<open>
  A square matrix is nonsingular when only the zero vector is mapped to zero. The part of
  \<open>StaticSolver.solve\<close> before the linear solve: the assembled \<open>K\<close> and \<open>F\<close>, the
  constrained and the free DOFs.
\<close>

definition nonsingular :: "matrix \<Rightarrow> bool" where
  "nonsingular A \<longleftrightarrow>
     (\<forall>x. length x = length A \<and> matvec A x = zeros (length A) \<longrightarrow> x = zeros (length A))"

definition static_system ::
    "store \<Rightarrow> Model \<Rightarrow> error + store \<times> Model \<times> matrix \<times> vector \<times> nat list \<times> nat list" where
  "static_system h m =
     (let (h, m) = generate_dof_map h m
      in case assemble_stiffness h m of Inl e \<Rightarrow> Inl e | Inr (h, m, K) \<Rightarrow>
        (case get_load_vector h m of Inl e \<Rightarrow> Inl e | Inr (h, m, F) \<Rightarrow>
          (case get_constrained_dofs h m of Inl e \<Rightarrow> Inl e | Inr (h, m, constrained_dofs) \<Rightarrow>
             Inr (h, m, K, F, constrained_dofs,
                  setdiff1d_arange (total_dofs m) constrained_dofs))))"

section \<open>Evaluation rules\<close>

lemmas array_defs = zeros_def zeros2_def ix_add_def scale_def mat_add_def set_block_def
  block_diag_def eye_def ncols_def column_def transpose_m_def matmul_def matvec_def dot_def
  np_sum_def cross_def norm_np_def vec_sub_def allclose_def

lemmas np_arith = divide_npfloat_def minus_npfloat_def one_npfloat_def zero_npfloat_def
  signed_inf_def

lemma threshold_large: "2 ^ 1001 < overflow_threshold"
proof -
  have "(2::real) ^ 1024 = 2 ^ 970 * 2 ^ 54" by (simp add: power_add[symmetric])
  moreover have "(2::real) ^ 1001 = 2 ^ 970 * 2 ^ 31" by (simp add: power_add[symmetric])
  moreover have "(2::real) ^ 31 < 2 ^ 54 - 1" by simp
  ultimately show ?thesis
    unfolding overflow_threshold_def
    by (simp add: algebra_simps)
qed

lemma threshold_small: "overflow_threshold < 2 ^ 1024"
  by (simp add: overflow_threshold_def)

lemma float64_Fin: "\<bar>r\<bar> < overflow_threshold \<Longrightarrow> float64 r = Fin r"
  by (auto simp: float64_def)

lemma float64_0: "float64 0 = Fin 0"
  using threshold_large by (simp add: float64_def)

lemma float64_small: "\<bar>r\<bar> \<le> 1000000000000000 \<Longrightarrow> float64 r = Fin r"
proof (rule float64_Fin)
  assume "\<bar>r\<bar> \<le> 1000000000000000"
  moreover have "(1000000000000000::real) < 2 ^ 50" by simp
  moreover have "(2::real) ^ 50 \<le> 2 ^ 1001" by (rule power_increasing) simp_all
  ultimately show "\<bar>r\<bar> < overflow_threshold" using threshold_large by linarith
qed

lemma float64_overflow: "overflow_threshold \<le> r \<Longrightarrow> float64 r = PInf"
  by (simp add: float64_def)

lemma np_equal_same: "a \<noteq> NaN \<Longrightarrow> np_equal a a"
  by (cases a) simp_all

lemma norm_axis:
  assumes "0 \<le> d" "d \<le> 2 ^ 500"
  shows "norm_np [Fin d, Fin 0, Fin 0] = Fin d"
proof -
  have "d * d \<le> 2 ^ 500 * 2 ^ 500" using assms by (intro mult_mono) simp_all
  also have "\<dots> = (2::real) ^ 1000" by (simp add: power_add[symmetric])
  also have "\<dots> \<le> 2 ^ 1001" by (rule power_increasing) simp_all
  finally have "\<bar>d * d\<bar> < overflow_threshold" using threshold_large by simp
  then have sq: "float64 (d * d) = Fin (d * d)" by (rule float64_Fin)
  show ?thesis using assms(1)
    by (simp add: norm_np_def np_sum_def sq float64_0)
qed

lemma beam_simps:
  "node1 (Beam3D_init n1 n2 mt sc) = n1" "node2 (Beam3D_init n1 n2 mt sc) = n2"
  "material (Beam3D_init n1 n2 mt sc) = mt" "section_el (Beam3D_init n1 n2 mt sc) = sc"
  by (simp_all add: Beam3D_init_def)

lemma store0_simps:
  "store0 11 = Node_init 1 0 0 0" "store0 12 = Node_init 2 1 0 0"
  "store0 13 = Node_init 3 0 1 0" "store0 14 = Node_init 4 0 0 0"
  "store0 15 = Node_init 5 (2 ^ 600) 0 0"
  by (simp_all add: store0_def)

lemma Node_init_simps:
  "node_id (Node_init i x y z) = i" "node_x (Node_init i x y z) = x"
  "node_y (Node_init i x y z) = y" "node_z (Node_init i x y z) = z"
  "dof_indices (Node_init i x y z) = []"
  by (simp_all add: Node_init_def)

lemma beam0_simps:
  "node1 beam0 = 11" "node2 beam0 = 12" "material beam0 = material0" "section_el beam0 = section0"
  by (simp_all add: beam0_def beam_simps)

lemma beam_far_simps:
  "node1 beam_far = 11" "node2 beam_far = 15"
  "material beam_far = material0" "section_el beam_far = section0"
  by (simp_all add: beam_far_def beam_simps)

lemma length_beam0: "length_el store0 beam0 = Fin 1"
  by (simp add: length_el_def coords_def vec_sub_def np_arith float64_small norm_axis
     beam0_simps store0_simps Node_init_simps)


lemma float64_far: "float64 (2 ^ 600) = Fin (2 ^ 600)"
proof (rule float64_Fin)
  have "(2::real) ^ 600 \<le> 2 ^ 1001" by (rule power_increasing) simp_all
  then show "\<bar>(2::real) ^ 600\<bar> < overflow_threshold" using threshold_large by simp
qed

lemma float64_far_sq: "float64 (2 ^ 600 * 2 ^ 600) = PInf"
proof (rule float64_overflow)
  have "(2::real) ^ 1024 \<le> 2 ^ 1200" by (rule power_increasing) simp_all
  then show "overflow_threshold \<le> 2 ^ 600 * 2 ^ 600"
    using threshold_small by (simp add: power_add[symmetric])
qed

lemma diff_beam_far:
  "vec_sub (coords (store0 (node2 beam_far))) (coords (store0 (node1 beam_far)))
     = [Fin (2 ^ 600), Fin 0, Fin 0]"
  using float64_far
  by (simp add: coords_def vec_sub_def np_arith float64_0 beam_far_simps store0_simps
      Node_init_simps del: power_numeral)

lemma length_beam_far: "length_el store0 beam_far = PInf"
  unfolding length_el_def diff_beam_far
  using float64_far_sq
  by (simp add: norm_np_def np_sum_def float64_0 del: power_numeral)

section \<open>The local stiffness matrix is symmetric\<close>

text \<open>
  Claim C3 says that for every beam element with positive length the local stiffness
  matrix satisfies \<open>K[i][j] = K[j][i]\<close> for all index pairs. The element from the origin
  to \<open>(2\<^sup>6\<^sup>0\<^sup>0, 0, 0)\<close> has a positive length, but the square of the coordinate difference
  overflows, \<open>length\<close> is \<open>inf\<close>, the factor \<open>E Cw / L\<^sup>3\<close> is \<open>0\<close> and its product with
  \<open>6 L = inf\<close> is a NaN: the entries \<open>[3][6]\<close> and \<open>[6][3]\<close> are NaN, and a NaN is equal to
  nothing.
\<close>

theorem local_stiffness_matrix_overflow_counterexample:
  "np_less (Fin 0) (length_el store0 beam_far) \<and>
   local_stiffness_matrix store0 beam_far ! 3 ! 6 = NaN \<and>
   \<not> np_equal (local_stiffness_matrix store0 beam_far ! 3 ! 6)
               (local_stiffness_matrix store0 beam_far ! 6 ! 3)"
  by (simp add: local_stiffness_matrix_def length_beam_far Let_def array_defs hermite_bending_def
      hermite_geometric_def np_arith float64_small eval_nat_numeral beam_far_simps material0_def
      section0_def)

lemma local_stiffness_matrix_shape:
  "length (local_stiffness_matrix h el) = 14 \<and>
   (\<forall>i<14. length (local_stiffness_matrix h el ! i) = 14)"
  by (simp add: local_stiffness_matrix_def Let_def array_defs hermite_bending_def
        hermite_geometric_def eval_nat_numeral All_less_Suc)

lemma local_stiffness_matrix_mirror:
  "\<forall>i<14. \<forall>j<14. local_stiffness_matrix h el ! i ! j = local_stiffness_matrix h el ! j ! i"
  by (simp add: local_stiffness_matrix_def Let_def array_defs hermite_bending_def
        hermite_geometric_def eval_nat_numeral All_less_Suc)

text \<open>
  Claim C3 as amended. For every beam element, of any length, the array returned by
  \<open>local_stiffness_matrix\<close> has 14 rows of 14 entries, the entries \<open>K[i][j]\<close> and
  \<open>K[j][i]\<close> are the same double for all \<open>i, j < 14\<close> (the two are computed by the same
  expression), and so they are equal in the sense of \<open>==\<close> wherever the entry is not a
  NaN.
\<close>

theorem local_stiffness_matrix_symmetric:
  "length (local_stiffness_matrix h el) = 14 \<and>
   (\<forall>i<14. length (local_stiffness_matrix h el ! i) = 14) \<and>
   (\<forall>i<14. \<forall>j<14.
      local_stiffness_matrix h el ! i ! j = local_stiffness_matrix h el ! j ! i \<and>
      (local_stiffness_matrix h el ! i ! j \<noteq> NaN \<longrightarrow>
         np_equal (local_stiffness_matrix h el ! i ! j) (local_stiffness_matrix h el ! j ! i)))"
proof -
  have "local_stiffness_matrix h el ! i ! j = local_stiffness_matrix h el ! j ! i \<and>
      (local_stiffness_matrix h el ! i ! j \<noteq> NaN \<longrightarrow>
         np_equal (local_stiffness_matrix h el ! i ! j) (local_stiffness_matrix h el ! j ! i))"
    if "i < 14" "j < 14" for i j
  proof -
    from that local_stiffness_matrix_mirror[of h el]
    have m: "local_stiffness_matrix h el ! i ! j = local_stiffness_matrix h el ! j ! i" by blast
    show ?thesis using np_equal_same[of "local_stiffness_matrix h el ! i ! j"] m by simp
  qed
  with local_stiffness_matrix_shape[of h el] show ?thesis by blast
qed

theorem local_stiffness_matrix_symmetric_witness:
  "length (local_stiffness_matrix store0 beam0) = 14 \<and>
   local_stiffness_matrix store0 beam0 ! 1 ! 5 = Fin 600000 \<and>
   local_stiffness_matrix store0 beam0 ! 5 ! 1 = Fin 600000 \<and>
   np_equal (local_stiffness_matrix store0 beam0 ! 1 ! 5) (local_stiffness_matrix store0 beam0 ! 5 ! 1)"
proof -
  have v: "local_stiffness_matrix store0 beam0 ! 1 ! 5 = Fin 600000"
    by (simp add: local_stiffness_matrix_def length_beam0 Let_def array_defs hermite_bending_def
      hermite_geometric_def np_arith float64_small eval_nat_numeral beam0_simps material0_def
      section0_def)
  have n: "local_stiffness_matrix store0 beam0 ! 1 ! 5 \<noteq> NaN" unfolding v by simp
  have "(1::nat) < 14" "(5::nat) < 14" by simp_all
  with local_stiffness_matrix_symmetric[of store0 beam0] n
  have "length (local_stiffness_matrix store0 beam0) = 14"
    and "local_stiffness_matrix store0 beam0 ! 1 ! 5 = local_stiffness_matrix store0 beam0 ! 5 ! 1"
    and "np_equal (local_stiffness_matrix store0 beam0 ! 1 ! 5) (local_stiffness_matrix store0 beam0 ! 5 ! 1)"
    by blast+
  with v show ?thesis by simp
qed

section \<open>The transformation matrix\<close>

lemma axis_frame:
  "(let x_local = [Fin 1, Fin 0, Fin 0];
          temp_vec = (if allclose (take 2 x_local) (Fin 0)
                      then [Fin 1, Fin 0, Fin 0] else [Fin 0, Fin 0, Fin 1]);
          y_local = cross temp_vec x_local;
          y_local = (if np_less (norm_np y_local) (Fin (1 / 10 ^ 6))
                     then cross [Fin 0, Fin 1, Fin 0] x_local else y_local);
          y_local = map (\<lambda>c. c / norm_np y_local) y_local;
          z_local = cross x_local y_local
      in transpose_m [x_local, y_local, z_local]) = eye 3"
  by (simp add: Let_def array_defs np_arith float64_small upt_rec eval_nat_numeral)

lemma transformation_matrix_eye:
  assumes "node_y (h (node2 el)) = node_y (h (node1 el))"
    and "node_z (h (node2 el)) = node_z (h (node1 el))"
    and "1 / 2 ^ 500 \<le> node_x (h (node2 el)) - node_x (h (node1 el))"
    and "node_x (h (node2 el)) - node_x (h (node1 el)) \<le> 2 ^ 500"
  shows "transformation_matrix h el = eye 14"
proof -
  define d where "d = node_x (h (node2 el)) - node_x (h (node1 el))"
  have "(0::real) < 1 / 2 ^ 500" by simp
  with assms(3) have pos: "0 < d" unfolding d_def by linarith
  have le: "d \<le> 2 ^ 500" using assms(4) by (simp add: d_def)
  have "(2::real) ^ 500 \<le> 2 ^ 1001" by (rule power_increasing) simp_all
  with pos le have "\<bar>d\<bar> < overflow_threshold" using threshold_large by linarith
  then have fd: "float64 d = Fin d" by (rule float64_Fin)
  have diff: "vec_sub (coords (h (node2 el))) (coords (h (node1 el))) = [Fin d, Fin 0, Fin 0]"
    using fd assms(1,2) by (simp add: vec_sub_def coords_def np_arith float64_0 d_def)
  have L: "length_el h el = Fin d"
    unfolding length_el_def diff using pos le by (simp add: norm_axis)
  have x: "map (\<lambda>e. e / Fin d) [Fin d, Fin 0, Fin 0] = [Fin 1, Fin 0, Fin 0]"
    using pos by (simp add: np_arith float64_small float64_0)
  have R: "direction_cosine_matrix h el = eye 3"
    unfolding direction_cosine_matrix_def L diff Let_def x
    using axis_frame[unfolded Let_def] .
  show ?thesis
    by (simp add: transformation_matrix_def R Let_def set_block_def block_diag_def eye_def
        transpose_m_def ncols_def column_def zeros2_def zeros_def upt_rec eval_nat_numeral)
qed

text \<open>
  Claim C6 says that for every beam element whose axis from node 1 to node 2 is the
  positive global x-axis, \<open>transformation_matrix\<close> returns the identity. The element from
  the origin to \<open>(2\<^sup>6\<^sup>0\<^sup>0, 0, 0)\<close> lies along that axis, but \<open>length\<close> overflows to \<open>inf\<close>,
  the normalised axis is the zero vector, both reference vectors give a zero cross product
  and the division by its norm gives NaNs: the entry \<open>[0][0]\<close> is \<open>0\<close> and the entry
  \<open>[1][1]\<close> is a NaN.
\<close>

theorem transformation_matrix_overflow_counterexample:
  "node_y (store0 (node2 beam_far)) = node_y (store0 (node1 beam_far)) \<and>
   node_z (store0 (node2 beam_far)) = node_z (store0 (node1 beam_far)) \<and>
   node_x (store0 (node1 beam_far)) < node_x (store0 (node2 beam_far)) \<and>
   length_el store0 beam_far = PInf \<and>
   transformation_matrix store0 beam_far ! 0 ! 0 = Fin 0 \<and>
   transformation_matrix store0 beam_far ! 1 ! 1 = NaN \<and>
   eye 14 ! 0 ! 0 = Fin 1"
proof -
  have R: "direction_cosine_matrix store0 beam_far =
     [[Fin 0, NaN, NaN], [Fin 0, NaN, NaN], [Fin 0, NaN, NaN]]"
    unfolding direction_cosine_matrix_def length_beam_far diff_beam_far
    by (simp add: Let_def array_defs np_arith float64_small upt_rec eval_nat_numeral
        del: power_numeral)
  have T: "transformation_matrix store0 beam_far ! 0 ! 0 = Fin 0"
      "transformation_matrix store0 beam_far ! 1 ! 1 = NaN"
    by (simp_all add: transformation_matrix_def R Let_def set_block_def block_diag_def eye_def
        transpose_m_def ncols_def column_def zeros2_def zeros_def upt_rec eval_nat_numeral)
  have e: "eye 14 ! 0 ! 0 = Fin 1" by (simp add: eye_def upt_rec)
  show ?thesis
    using T e length_beam_far
    by (simp add: beam_far_simps store0_simps Node_init_simps)
qed

text \<open>
  Claim C6 as amended. For every beam element whose axis from node 1 to node 2 is the
  positive global x-axis (equal y and z coordinates, larger x at node 2) and whose
  coordinate difference \<open>x\<^sub>2 - x\<^sub>1\<close> lies between \<open>2\<^sup>-\<^sup>5\<^sup>0\<^sup>0\<close> and \<open>2\<^sup>5\<^sup>0\<^sup>0\<close>, so that its square
  neither overflows nor underflows, \<open>transformation_matrix\<close> returns the \<open>14 \<times> 14\<close>
  identity.
\<close>

theorem transformation_matrix_x_axis:
  assumes "node_y (h (node2 el)) = node_y (h (node1 el))"
    and "node_z (h (node2 el)) = node_z (h (node1 el))"
    and "1 / 2 ^ 500 \<le> node_x (h (node2 el)) - node_x (h (node1 el))"
    and "node_x (h (node2 el)) - node_x (h (node1 el)) \<le> 2 ^ 500"
  shows "transformation_matrix h el = eye 14"
  using assms by (rule transformation_matrix_eye)

theorem transformation_matrix_x_axis_witness:
  "node_y (store0 (node2 beam0)) = node_y (store0 (node1 beam0)) \<and>
   node_z (store0 (node2 beam0)) = node_z (store0 (node1 beam0)) \<and>
   1 / 2 ^ 500 \<le> node_x (store0 (node2 beam0)) - node_x (store0 (node1 beam0)) \<and>
   node_x (store0 (node2 beam0)) - node_x (store0 (node1 beam0)) \<le> 2 ^ 500 \<and>
   transformation_matrix store0 beam0 = eye 14"
proof -
  have a: "node_y (store0 (node2 beam0)) = node_y (store0 (node1 beam0))"
    and b: "node_z (store0 (node2 beam0)) = node_z (store0 (node1 beam0))"
    and c: "1 / 2 ^ 500 \<le> node_x (store0 (node2 beam0)) - node_x (store0 (node1 beam0))"
    and d: "node_x (store0 (node2 beam0)) - node_x (store0 (node1 beam0)) \<le> 2 ^ 500"
    by (simp_all add: beam0_simps store0_simps Node_init_simps)
  from a b c d transformation_matrix_x_axis[OF a b c d] show ?thesis by blast
qed

section \<open>Zero-length elements\<close>







section \<open>Material constants\<close>

text \<open>
  Claim C8 says that constructing a \<open>Material\<close> fails if and only if neither \<open>G\<close> nor
  \<open>nu\<close> is supplied. With \<open>G = 0\<close> supplied alone, the formula \<open>E / (2 * G) - 1\<close> divides
  Python floats by zero and the constructor raises \<open>ZeroDivisionError\<close>.
\<close>

theorem Material_init_counterexample:
  "Material_init 1 (Some 0) None 0 = Inl ZeroDivisionError"
  by (simp add: Material_init_def)

text \<open>
  Claim C8 as amended. With \<open>E\<close> and exactly one of \<open>G\<close> (not zero) and \<open>nu\<close> (not \<open>-1\<close>)
  the missing constant is derived by \<open>nu = E / (2 G) - 1\<close>, respectively
  \<open>G = E / (2 (1 + nu))\<close>; with both supplied, both are stored as given; and the
  constructor raises its \<open>ValueError\<close> if and only if neither is supplied.
\<close>

theorem Material_init_cases:
  "(G = Some g \<and> nu = Some n \<longrightarrow>
      Material_init E G nu rho = Inr \<lparr>mat_E = E, mat_G = g, mat_nu = n, mat_rho = rho\<rparr>) \<and>
   (G = Some g \<and> nu = None \<and> g \<noteq> 0 \<longrightarrow>
      Material_init E G nu rho = Inr \<lparr>mat_E = E, mat_G = g, mat_nu = E / (2 * g) - 1, mat_rho = rho\<rparr>) \<and>
   (G = None \<and> nu = Some n \<and> n \<noteq> - 1 \<longrightarrow>
      Material_init E G nu rho = Inr \<lparr>mat_E = E, mat_G = E / (2 * (1 + n)), mat_nu = n, mat_rho = rho\<rparr>) \<and>
   (Material_init E G nu rho = Inl ValueError \<longleftrightarrow> G = None \<and> nu = None)"
  by (cases G; cases nu) (auto simp: Material_init_def)

theorem Material_init_cases_witness:
  "Material_init 100000 None (Some (3 / 10)) 0 = Inr material0 \<and>
   Material_init 100000 (Some 38000) None 0
     = Inr \<lparr>mat_E = 100000, mat_G = 38000, mat_nu = 100000 / (2 * 38000) - 1, mat_rho = 0\<rparr> \<and>
   Material_init 100000 (Some 38000) (Some (3 / 10)) 0
     = Inr \<lparr>mat_E = 100000, mat_G = 38000, mat_nu = 3 / 10, mat_rho = 0\<rparr> \<and>
   Material_init 100000 None None 0 = Inl ValueError"
  using Material_init_cases[of "None" "0" "Some (3 / 10)" "3 / 10" 100000 0]
        Material_init_cases[of "Some 38000" 38000 None 0 100000 0]
        Material_init_cases[of "Some 38000" 38000 "Some (3 / 10)" "3 / 10" 100000 0]
        Material_init_cases[of None 0 None 0 100000 0]
  by (simp add: material0_def)


section \<open>The DOF map\<close>

lemma fold_assign_dofs:
  assumes "distinct xs"
    and "\<forall>x \<in> set xs. map_of (nodes m) x = Some (addr x)"
    and "inj_on addr (set xs)"
    and "fold (assign_dofs m) xs (h, c) = (h', c')"
  shows "c' = c + ndof_per_node m * length xs \<and>
         (\<forall>i < length xs. dof_indices (h' (addr (xs ! i)))
              = [c + ndof_per_node m * i ..< c + ndof_per_node m * i + ndof_per_node m]) \<and>
         (\<forall>a. a \<notin> addr ` set xs \<longrightarrow> h' a = h a)"
  using assms
proof (induction xs arbitrary: h c)
  case Nil
  then show ?case by simp
next
  case (Cons x xs)
  let ?n = "ndof_per_node m"
  let ?h1 = "h(addr x := (h (addr x))\<lparr>dof_indices := [c..<c + ?n]\<rparr>)"
  have look: "map_of (nodes m) x = Some (addr x)" using Cons.prems(2) by simp
  have step: "assign_dofs m x (h, c) = (?h1, c + ?n)"
    by (simp add: assign_dofs_def look)
  have rest: "fold (assign_dofs m) xs (?h1, c + ?n) = (h', c')"
    using Cons.prems(4) by (simp add: step)
  have d: "distinct xs" and l: "\<forall>y \<in> set xs. map_of (nodes m) y = Some (addr y)"
    and i: "inj_on addr (set xs)"
    using Cons.prems(1,2,3) by (auto simp: inj_on_def)
  note IH = Cons.IH[OF d l i rest]
  have notin: "addr x \<notin> addr ` set xs"
    using Cons.prems(1,3) by (auto simp: inj_on_def)
  have c': "c' = c + ?n * length (x # xs)" using IH by simp
  have blocks: "dof_indices (h' (addr ((x # xs) ! i))) = [c + ?n * i ..< c + ?n * i + ?n]"
    if "i < length (x # xs)" for i
  proof (cases i)
    case 0
    have "h' (addr x) = ?h1 (addr x)" using IH notin by blast
    then show ?thesis using 0 by simp
  next
    case (Suc j)
    then have "j < length xs" using that by simp
    then have "dof_indices (h' (addr (xs ! j))) = [c + ?n + ?n * j ..< c + ?n + ?n * j + ?n]"
      using IH by blast
    then show ?thesis using Suc by (simp add: add.assoc)
  qed
  have frame: "h' a = h a" if "a \<notin> addr ` set (x # xs)" for a
  proof -
    have "h' a = ?h1 a" using IH that by auto
    then show ?thesis using that by simp
  qed
  show ?case using c' blocks frame by blast
qed

lemma model_inv_lookup:
  assumes "model_inv h m"
  shows "(map_of (nodes m) k = Some a) = ((k, a) \<in> set (nodes m))"
  using assms by (simp add: model_inv_def)

lemma model_inv_inj:
  assumes "model_inv h m"
  shows "inj_on (\<lambda>k. the (map_of (nodes m) k)) (fst ` set (nodes m))"
proof (rule inj_onI)
  fix k1 k2
  assume k1: "k1 \<in> fst ` set (nodes m)" and k2: "k2 \<in> fst ` set (nodes m)"
    and eq: "the (map_of (nodes m) k1) = the (map_of (nodes m) k2)"
  from k1 obtain a1 where a1: "(k1, a1) \<in> set (nodes m)" by auto
  from k2 obtain a2 where a2: "(k2, a2) \<in> set (nodes m)" by auto
  have "map_of (nodes m) k1 = Some a1" "map_of (nodes m) k2 = Some a2"
    using a1 a2 model_inv_lookup[OF assms] by simp_all
  with eq have "a1 = a2" by simp
  moreover have "node_id (h a1) = k1" "node_id (h a2) = k2"
    using assms a1 a2 by (auto simp: model_inv_def)
  ultimately show "k1 = k2" by simp
qed

lemma generate_dof_map_sorted:
  assumes inv: "model_inv h m" and gen: "generate_dof_map h m = (h', m')"
  shows "total_dofs m' = 7 * length (nodes m) \<and> dof_map_generated m' \<and>
         nodes m' = nodes m \<and> constraints m' = constraints m \<and> loads m' = loads m \<and>
         elements m' = elements m \<and> ndof_per_node m' = ndof_per_node m \<and>
         (\<forall>k < length (nodes m).
            dof_indices (h' (the (map_of (nodes m) (sort (map fst (nodes m)) ! k)))) = [7 * k ..< 7 * k + 7]) \<and>
         (\<forall>a. a \<notin> snd ` set (nodes m) \<longrightarrow> h' a = h a)"
proof -
  let ?ids = "sort (map fst (nodes m))"
  let ?addr = "\<lambda>k. the (map_of (nodes m) k)"
  obtain h1 c1 where f: "fold (assign_dofs m) ?ids (h, 0) = (h1, c1)" by force
  have d: "distinct ?ids" using inv by (simp add: model_inv_def)
  have l: "\<forall>x \<in> set ?ids. map_of (nodes m) x = Some (?addr x)"
  proof
    fix x assume "x \<in> set ?ids"
    then obtain a where "(x, a) \<in> set (nodes m)" by auto
    then have "map_of (nodes m) x = Some a"
      using model_inv_lookup[OF inv] by blast
    then show "map_of (nodes m) x = Some (?addr x)" by simp
  qed
  have i: "inj_on ?addr (set ?ids)" using model_inv_inj[OF inv] by simp
  note F = fold_assign_dofs[OF d l i f]
  have n7: "ndof_per_node m = 7" using inv by (simp add: model_inv_def)
  have hm: "h' = h1" "m' = m\<lparr>total_dofs := c1, dof_map_generated := True\<rparr>"
    using gen f by (simp_all add: generate_dof_map_def Let_def)
  have img: "?addr ` set ?ids = snd ` set (nodes m)"
  proof -
    have "?addr k = a" if "(k, a) \<in> set (nodes m)" for k a
    proof -
      have "map_of (nodes m) k = Some a" using that model_inv_lookup[OF inv] by blast
      then show ?thesis by simp
    qed
    then show ?thesis by (force simp: image_iff)
  qed
  show ?thesis
    using F img by (simp add: hm n7)
qed

text \<open>
  Claim C4. DOF-map generation gives the node with the \<open>k\<close>-th smallest id
  (\<open>k = 0, 1, \<dots>\<close>) exactly the indices \<open>7k, \<dots>, 7k + 6\<close> and sets the total DOF count to
  seven times the number of nodes; the numbering depends only on the set of node ids: two
  models with the same ids, in whatever insertion order, give every id the same indices.
\<close>

theorem generate_dof_map_blocks:
  assumes inv: "model_inv h m" and gen: "generate_dof_map h m = (h', m')"
    and inv2: "model_inv h2 m2" and gen2: "generate_dof_map h2 m2 = (h2', m2')"
    and same: "set (map fst (nodes m2)) = set (map fst (nodes m))"
  shows "(\<forall>k < length (nodes m). \<exists>a. map_of (nodes m) (sort (map fst (nodes m)) ! k) = Some a \<and>
            dof_indices (h' a) = [7 * k ..< 7 * k + 7]) \<and>
         total_dofs m' = 7 * length (nodes m) \<and>
         (\<forall>nid a a2. map_of (nodes m) nid = Some a \<and> map_of (nodes m2) nid = Some a2 \<longrightarrow>
            dof_indices (h2' a2) = dof_indices (h' a))"
proof -
  let ?ids = "sort (map fst (nodes m))"
  let ?ids2 = "sort (map fst (nodes m2))"
  note G = generate_dof_map_sorted[OF inv gen]
  note G2 = generate_dof_map_sorted[OF inv2 gen2]
  have found: "\<exists>a. map_of (nodes m) (?ids ! k) = Some a" if "k < length (nodes m)" for k
  proof -
    have "k < length ?ids" using that by simp
    then have "?ids ! k \<in> set ?ids" by (rule nth_mem)
    then have "?ids ! k \<in> fst ` set (nodes m)" by simp
    then obtain a where "(?ids ! k, a) \<in> set (nodes m)" by auto
    then show ?thesis using model_inv_lookup[OF inv] by blast
  qed
  have first: "\<exists>a. map_of (nodes m) (?ids ! k) = Some a \<and> dof_indices (h' a) = [7 * k ..< 7 * k + 7]"
    if "k < length (nodes m)" for k
  proof -
    from found[OF that] obtain a where a: "map_of (nodes m) (?ids ! k) = Some a" ..
    moreover have "dof_indices (h' (the (map_of (nodes m) (?ids ! k)))) = [7 * k ..< 7 * k + 7]"
      using G that by blast
    ultimately show ?thesis by simp
  qed
  have ids_eq: "?ids2 = ?ids"
  proof (rule sorted_distinct_set_unique)
    show "distinct ?ids2" using inv2 by (simp add: model_inv_def)
    show "distinct ?ids" using inv by (simp add: model_inv_def)
    show "set ?ids2 = set ?ids" using same by simp
  qed simp_all
  have third: "dof_indices (h2' a2) = dof_indices (h' a)"
    if "map_of (nodes m) nid = Some a" "map_of (nodes m2) nid = Some a2" for nid a a2
  proof -
    have "(nid, a) \<in> set (nodes m)" using that(1) by (rule map_of_SomeD)
    then have "nid \<in> fst ` set (nodes m)" by (rule rev_image_eqI) simp
    then have "nid \<in> set ?ids" by simp
    then obtain k where k: "k < length ?ids" "?ids ! k = nid"
      unfolding in_set_conv_nth by blast
    have k1: "k < length (nodes m)" using k by simp
    have "length ?ids2 = length ?ids" using ids_eq by simp
    then have k2: "k < length (nodes m2)" using k by simp
    have "dof_indices (h' (the (map_of (nodes m) (?ids ! k)))) = [7 * k ..< 7 * k + 7]"
      using G k1 by blast
    moreover have "dof_indices (h2' (the (map_of (nodes m2) (?ids2 ! k)))) = [7 * k ..< 7 * k + 7]"
      using G2 k2 by blast
    ultimately show ?thesis using that k ids_eq by simp
  qed
  show ?thesis using first third G by blast
qed

lemma model_inv_Model_init: "model_inv h Model_init"
  by (simp add: model_inv_def Model_init_def)

lemma model_inv_add_node:
  assumes "model_inv h m" and "add_node h m a = Inr m'"
  shows "model_inv h m'"
  using assms by (auto simp: model_inv_def add_node_def split: if_splits)

lemma model_inv_cantilever: "model_inv store0 (cantilever cs ls)"
  by (simp add: model_inv_def cantilever_def store0_simps Node_init_simps)

lemma model_inv_swapped: "model_inv store0 swapped_model"
  by (simp add: model_inv_def swapped_model_def store0_simps Node_init_simps)

theorem generate_dof_map_blocks_witness:
  "model_inv store0 axial_model \<and> model_inv store0 swapped_model \<and>
   set (map fst (nodes swapped_model)) = set (map fst (nodes axial_model)) \<and>
   dof_indices (fst (generate_dof_map store0 axial_model) 11) = [0, 1, 2, 3, 4, 5, 6] \<and>
   dof_indices (fst (generate_dof_map store0 axial_model) 12) = [7, 8, 9, 10, 11, 12, 13] \<and>
   total_dofs (snd (generate_dof_map store0 axial_model)) = 14 \<and>
   dof_indices (fst (generate_dof_map store0 swapped_model) 12)
     = dof_indices (fst (generate_dof_map store0 axial_model) 12)"
proof -
  have i1: "model_inv store0 axial_model"
    unfolding axial_model_def by (rule model_inv_cantilever)
  have i2: "model_inv store0 swapped_model" by (rule model_inv_swapped)
  have same: "set (map fst (nodes swapped_model)) = set (map fst (nodes axial_model))"
    by (auto simp: swapped_model_def axial_model_def cantilever_def)
  have g1: "generate_dof_map store0 axial_model
      = (fst (generate_dof_map store0 axial_model), snd (generate_dof_map store0 axial_model))"
    and g2: "generate_dof_map store0 swapped_model
      = (fst (generate_dof_map store0 swapped_model), snd (generate_dof_map store0 swapped_model))"
    by simp_all
  have n: "nodes axial_model = [(1, 11), (2, 12)]" "nodes swapped_model = [(2, 12), (1, 11)]"
    by (simp_all add: axial_model_def cantilever_def swapped_model_def)
  note T = generate_dof_map_blocks[OF i1 g1 i2 g2 same]
  have A: "\<exists>a. map_of (nodes axial_model) (sort (map fst (nodes axial_model)) ! k) = Some a \<and>
      dof_indices (fst (generate_dof_map store0 axial_model) a) = [7 * k ..< 7 * k + 7]"
    if "k < 2" for k
    using T that by (simp add: n)
  have b0: "dof_indices (fst (generate_dof_map store0 axial_model) 11) = [0, 1, 2, 3, 4, 5, 6]"
    using A[of 0] by (simp add: n upt_rec)
  have b1: "dof_indices (fst (generate_dof_map store0 axial_model) 12) = [7, 8, 9, 10, 11, 12, 13]"
    using A[of 1] by (simp add: n upt_rec)
  from T have tot: "total_dofs (snd (generate_dof_map store0 axial_model)) = 14"
    by (simp add: n)
  have l1: "map_of (nodes axial_model) 2 = Some 12" and l2: "map_of (nodes swapped_model) 2 = Some 12"
    by (simp_all add: n)
  from T have "\<forall>nid a a2. map_of (nodes axial_model) nid = Some a \<and>
        map_of (nodes swapped_model) nid = Some a2 \<longrightarrow>
      dof_indices (fst (generate_dof_map store0 swapped_model) a2)
        = dof_indices (fst (generate_dof_map store0 axial_model) a)"
    by blast
  with l1 l2 have "dof_indices (fst (generate_dof_map store0 swapped_model) 12)
     = dof_indices (fst (generate_dof_map store0 axial_model) 12)"
    by blast
  with i1 i2 same b0 b1 tot show ?thesis by blast
qed

section \<open>Constraints\<close>

lemma py_index_7:
  assumes "length dl = 7"
  shows "py_index dl d = (if in_range d then Inr (dl ! local_dof d) else Inl IndexError)"
  using assms by (auto simp: py_index_def in_range_def local_dof_def Let_def)

lemma index_loop_result:
  assumes "length dl = 7"
  shows "index_loop dl ds acc =
     (if \<forall>d \<in> set ds. in_range d then Inr (acc @ map (\<lambda>d. dl ! local_dof d) ds)
      else Inl IndexError)"
  by (induction ds arbitrary: acc) (auto simp: py_index_7[OF assms])

lemma constraint_loop_result:
  assumes "\<forall>(k, ds) \<in> set cs. \<exists>a. map_of (nodes m) k = Some a \<and> length (dof_indices (h a)) = 7"
  shows "constraint_loop h m cs acc =
     (if \<forall>(k, ds) \<in> set cs. \<forall>d \<in> set ds. in_range d
      then Inr (acc @ concat (map (\<lambda>(k, ds). map (\<lambda>d. dof_indices (h (the (map_of (nodes m) k))) ! local_dof d) ds) cs))
      else Inl IndexError)"
  using assms
proof (induction cs arbitrary: acc)
  case Nil
  then show ?case by simp
next
  case (Cons c cs)
  obtain k ds where c: "c = (k, ds)" by (cases c)
  from Cons.prems obtain a where a: "map_of (nodes m) k = Some a" "length (dof_indices (h a)) = 7"
    by (auto simp: c)
  have rest: "\<forall>(k, ds) \<in> set cs. \<exists>a. map_of (nodes m) k = Some a \<and> length (dof_indices (h a)) = 7"
    using Cons.prems by simp
  show ?case
    by (simp add: c a index_loop_result[OF a(2)] Cons.IH[OF rest])
qed

lemma ensure_dof_map_assigned:
  assumes inv: "model_inv h m" and cur: "dof_map_generated m \<longrightarrow> dofs_assigned h m"
    and ens: "ensure_dof_map h m = (h', m')"
  shows "dofs_assigned h' m' \<and> nodes m' = nodes m \<and> constraints m' = constraints m \<and>
         loads m' = loads m \<and> elements m' = elements m \<and> dof_map_generated m'"
proof (cases "dof_map_generated m")
  case True
  then show ?thesis using cur ens by (simp add: ensure_dof_map_def)
next
  case False
  then have gen: "generate_dof_map h m = (h', m')" using ens by (simp add: ensure_dof_map_def)
  note G = generate_dof_map_sorted[OF inv gen]
  let ?ids = "sort (map fst (nodes m))"
  have "length (dof_indices (h' a)) = 7" if "(k, a) \<in> set (nodes m)" for k a
  proof -
    have la: "map_of (nodes m) k = Some a" using that model_inv_lookup[OF inv] by blast
    have "k \<in> fst ` set (nodes m)" using that by (rule rev_image_eqI) simp
    then have "k \<in> set ?ids" by simp
    then obtain i where i: "i < length ?ids" "?ids ! i = k" unfolding in_set_conv_nth by blast
    then have "i < length (nodes m)" by simp
    then have "dof_indices (h' (the (map_of (nodes m) (?ids ! i)))) = [7 * i ..< 7 * i + 7]"
      using G by blast
    then show ?thesis using i la by simp
  qed
  then have "dofs_assigned h' m'" using G by (auto simp: dofs_assigned_def)
  then show ?thesis using G by simp
qed

lemma get_constrained_dofs_result:
  assumes inv: "model_inv h m" and cur: "dof_map_generated m \<longrightarrow> dofs_assigned h m"
    and cinv: "constraints_inv m"
    and ens: "ensure_dof_map h m = (h', m')"
  shows "get_constrained_dofs h m =
     (if \<forall>(k, ds) \<in> set (constraints m). \<forall>d \<in> set ds. in_range d
      then Inr (h', m', unique (concat (map (\<lambda>(k, ds). map (\<lambda>d. dof_indices (h' (the (map_of (nodes m) k))) ! local_dof d) ds) (constraints m))))
      else Inl IndexError)"
proof -
  note E = ensure_dof_map_assigned[OF inv cur ens]
  have pre: "\<forall>(k, ds) \<in> set (constraints m'). \<exists>a. map_of (nodes m') k = Some a \<and> length (dof_indices (h' a)) = 7"
  proof (clarify)
    fix k ds assume "(k, ds) \<in> set (constraints m')"
    then have "k \<in> fst ` set (nodes m)" using cinv E by (auto simp: constraints_inv_def)
    then obtain a where a: "(k, a) \<in> set (nodes m)" by auto
    then have "map_of (nodes m) k = Some a" using model_inv_lookup[OF inv] by blast
    moreover have "length (dof_indices (h' a)) = 7" using E a by (auto simp: dofs_assigned_def)
    ultimately show "\<exists>a. map_of (nodes m') k = Some a \<and> length (dof_indices (h' a)) = 7"
      using E by simp
  qed
  have cl: "constraint_loop h' m' (constraints m) [] =
     (if \<forall>(k, ds) \<in> set (constraints m). \<forall>d \<in> set ds. in_range d
      then Inr (concat (map (\<lambda>(k, ds). map (\<lambda>d. dof_indices (h' (the (map_of (nodes m) k))) ! local_dof d) ds) (constraints m)))
      else Inl IndexError)"
    using constraint_loop_result[OF pre, of "[]"] E by simp
  have cm: "constraints m' = constraints m" using E by simp
  show ?thesis
    by (simp add: get_constrained_dofs_def ens cm cl)
qed

lemma map_of_update_same:
  "map_of (AList.update k v al) k = Some v"
  by (simp add: update_conv')

lemma in_update_cases:
  "(k', v') \<in> set (AList.update k v al) \<Longrightarrow> (k', v') \<in> set al \<or> (k' = k \<and> v' = v)"
  by (induction al) (auto split: if_splits)

lemma in_concat_map:
  assumes "(k, ds) \<in> set cs" and "d \<in> set ds"
  shows "f k d \<in> set (concat (map (\<lambda>(k, ds). map (f k) ds) cs))"
  using assms by (induction cs) auto

lemma set_unique: "set (unique xs) = set xs"
  by (simp add: unique_def)

text \<open>
  Claim C10 says that a negative \<open>dof_index\<close> never fails. Python's list indexing wraps
  a negative index only down to \<open>-7\<close> on the seven-entry list: the index \<open>-8\<close> is
  accepted by \<open>add_constraint\<close> and makes \<open>get_constrained_dofs\<close> raise \<open>IndexError\<close>.
\<close>

theorem add_constraint_negative_counterexample:
  "add_constraint (cantilever [] []) 1 (- 8) = Inr (cantilever [(1, [- 8])] []) \<and>
   get_constrained_dofs store0 (cantilever [(1, [- 8])] []) = Inl IndexError"
proof -
  have "add_constraint (cantilever [] []) 1 (- 8) = Inr (cantilever [(1, [- 8])] [])"
    by (simp add: add_constraint_def cantilever_def)
  moreover have "constraints_inv (cantilever [(1, [- 8])] [])"
    by (simp add: constraints_inv_def cantilever_def)
  then have "get_constrained_dofs store0 (cantilever [(1, [- 8])] []) = Inl IndexError"
    using get_constrained_dofs_result[OF model_inv_cantilever _ _ surjective_pairing,
        of "[(1, [- 8])]" "[]"]
    by (simp add: cantilever_def in_range_def)
  ultimately show ?thesis by blast
qed

text \<open>
  Claim C10 as amended. For every node id present in the model, \<open>add_constraint\<close> accepts
  any integer \<open>dof_index\<close> without checking it lies in \<open>[0, 6]\<close>: the value is recorded in
  the constraint set and the call succeeds. A \<open>dof_index\<close> that is \<open>\<ge> 7\<close> or \<open>< -7\<close>
  causes a failure only later, when \<open>get_constrained_dofs\<close> indexes the node's seven-entry
  DOF list; a \<open>dof_index\<close> in \<open>[-7, -1]\<close> does not fail and constrains the DOF counted from
  the end of the node's block (\<open>-1\<close> constrains local DOF 6). The model is one built with
  the \<open>add_\<close> operations whose earlier constraints are all in \<open>[-7, 7)\<close>.
\<close>

theorem add_constraint_unchecked:
  assumes inv: "model_inv h m" and cur: "dof_map_generated m \<longrightarrow> dofs_assigned h m"
    and cinv: "constraints_inv m"
    and present: "map_of (nodes m) nid = Some a"
    and old: "\<forall>(k, ds) \<in> set (constraints m). \<forall>d' \<in> set ds. in_range d'"
  shows "\<exists>m1. add_constraint m nid d = Inr m1 \<and>
           map_of (constraints m1) nid \<noteq> None \<and>
           d \<in> set (the (map_of (constraints m1) nid)) \<and>
           (7 \<le> d \<or> d < - 7 \<longrightarrow> get_constrained_dofs h m1 = Inl IndexError) \<and>
           (- 7 \<le> d \<and> d < 7 \<longrightarrow>
              (\<exists>h' m' cd. get_constrained_dofs h m1 = Inr (h', m', cd) \<and>
                 dof_indices (h' a) ! nat (if d < 0 then d + 7 else d) \<in> set cd))"
proof -
  define cs where "cs = (case map_of (constraints m) nid of None \<Rightarrow> [] | Some ds \<Rightarrow> ds)"
  define m1 where "m1 = m\<lparr>constraints := AList.update nid (List.insert d cs) (constraints m)\<rparr>"
  have key: "nid \<in> fst ` set (nodes m)"
    using map_of_SomeD[OF present] by (rule rev_image_eqI) simp
  have add: "add_constraint m nid d = Inr m1"
    using key by (simp add: add_constraint_def m1_def cs_def Let_def)
  have look: "map_of (constraints m1) nid = Some (List.insert d cs)"
    by (simp add: m1_def map_of_update_same)
  then have new: "(nid, List.insert d cs) \<in> set (constraints m1)" by (rule map_of_SomeD)
  have nodes1: "nodes m1 = nodes m" by (simp add: m1_def)
  have inv1: "model_inv h m1" using inv by (simp add: model_inv_def m1_def)
  have cur1: "dof_map_generated m1 \<longrightarrow> dofs_assigned h m1"
    using cur by (simp add: m1_def dofs_assigned_def)
  have entries: "(k, ds) \<in> set (constraints m) \<or> (k = nid \<and> ds = List.insert d cs)"
    if "(k, ds) \<in> set (constraints m1)" for k ds
    using that in_update_cases[of k ds nid "List.insert d cs" "constraints m"] by (simp add: m1_def)
  have cinv1: "constraints_inv m1"
    unfolding constraints_inv_def nodes1
  proof (clarify)
    fix k ds assume "(k, ds) \<in> set (constraints m1)"
    from entries[OF this] show "k \<in> fst ` set (nodes m)"
    proof
      assume "(k, ds) \<in> set (constraints m)"
      then show ?thesis using cinv unfolding constraints_inv_def by blast
    next
      assume "k = nid \<and> ds = List.insert d cs"
      then show ?thesis using key by simp
    qed
  qed
  have cs_ok: "\<forall>d' \<in> set cs. in_range d'"
  proof (cases "map_of (constraints m) nid")
    case None
    then show ?thesis by (simp add: cs_def)
  next
    case (Some ds)
    then have "(nid, ds) \<in> set (constraints m)" by (rule map_of_SomeD)
    then show ?thesis using old Some by (auto simp: cs_def)
  qed
  obtain h' m' where ens: "ensure_dof_map h m1 = (h', m')" by force
  note R = get_constrained_dofs_result[OF inv1 cur1 cinv1 ens]
  have bad: "get_constrained_dofs h m1 = Inl IndexError" if "7 \<le> d \<or> d < - 7"
  proof -
    have "\<not> in_range d" using that by (auto simp: in_range_def)
    have "\<not> (\<forall>(k, ds) \<in> set (constraints m1). \<forall>d \<in> set ds. in_range d)"
    proof
      assume "\<forall>(k, ds) \<in> set (constraints m1). \<forall>d \<in> set ds. in_range d"
      with new have "\<forall>d' \<in> set (List.insert d cs). in_range d'" by blast
      then have "in_range d" by simp
      with \<open>\<not> in_range d\<close> show False ..
    qed
    then show ?thesis using R by simp
  qed
  have good: "\<exists>h' m' cd. get_constrained_dofs h m1 = Inr (h', m', cd) \<and>
                 dof_indices (h' a) ! nat (if d < 0 then d + 7 else d) \<in> set cd"
    if "- 7 \<le> d \<and> d < 7"
  proof -
    have d: "in_range d" using that by (simp add: in_range_def)
    have all: "\<forall>(k, ds) \<in> set (constraints m1). \<forall>d \<in> set ds. in_range d"
    proof (clarify)
      fix k ds d' assume e: "(k, ds) \<in> set (constraints m1)" and d': "d' \<in> set ds"
      from entries[OF e] show "in_range d'"
      proof
        assume "(k, ds) \<in> set (constraints m)"
        then show ?thesis using old d' by blast
      next
        assume "k = nid \<and> ds = List.insert d cs"
        then have "d' = d \<or> d' \<in> set cs" using d' by simp
        then show ?thesis using d cs_ok by blast
      qed
    qed
    let ?cd = "unique (concat (map (\<lambda>(k, ds). map (\<lambda>d. dof_indices (h' (the (map_of (nodes m1) k))) ! local_dof d) ds) (constraints m1)))"
    have res: "get_constrained_dofs h m1 = Inr (h', m', ?cd)" using R all by simp
    have "d \<in> set (List.insert d cs)" by simp
    then have "dof_indices (h' (the (map_of (nodes m1) nid))) ! local_dof d \<in> set ?cd"
      unfolding set_unique by (rule in_concat_map[OF new])
    then have "dof_indices (h' a) ! nat (if d < 0 then d + 7 else d) \<in> set ?cd"
      by (simp add: nodes1 present local_dof_def)
    with res show ?thesis by blast
  qed
  have rec: "map_of (constraints m1) nid \<noteq> None" "d \<in> set (the (map_of (constraints m1) nid))"
    by (simp_all add: look)
  show ?thesis
    by (rule exI[of _ m1]) (use add rec bad good in blast)
qed

lemma constraints_inv_cantilever:
  "constraints_inv (cantilever cs ls) = (\<forall>(k, ds) \<in> set cs. k = 1 \<or> k = 2)"
  by (auto simp: constraints_inv_def cantilever_def)

theorem add_constraint_unchecked_witness:
  "model_inv store0 (cantilever [(2, [0])] []) \<and>
   constraints_inv (cantilever [(2, [0])] []) \<and>
   map_of (nodes (cantilever [(2, [0])] [])) 1 = Some 11 \<and>
   (\<exists>m1. add_constraint (cantilever [(2, [0])] []) 1 (- 1) = Inr m1 \<and>
      - 1 \<in> set (the (map_of (constraints m1) 1)) \<and>
      (\<exists>h' m' cd. get_constrained_dofs store0 m1 = Inr (h', m', cd) \<and>
         dof_indices (h' 11) ! 6 \<in> set cd)) \<and>
   (\<exists>m1. add_constraint (cantilever [(2, [0])] []) 1 9 = Inr m1 \<and>
      9 \<in> set (the (map_of (constraints m1) 1)) \<and>
      get_constrained_dofs store0 m1 = Inl IndexError)"
proof -
  let ?M = "cantilever [(2, [0])] []"
  have inv: "model_inv store0 ?M" by (rule model_inv_cantilever)
  have cur: "dof_map_generated ?M \<longrightarrow> dofs_assigned store0 ?M"
    by (simp add: cantilever_def)
  have cinv: "constraints_inv ?M" by (simp add: constraints_inv_cantilever)
  have present: "map_of (nodes ?M) 1 = Some 11" by (simp add: cantilever_def)
  have old: "\<forall>(k, ds) \<in> set (constraints ?M). \<forall>d' \<in> set ds. in_range d'"
    by (simp add: cantilever_def in_range_def)
  have neg: "\<exists>m1. add_constraint ?M 1 (- 1) = Inr m1 \<and>
      - 1 \<in> set (the (map_of (constraints m1) 1)) \<and>
      (\<exists>h' m' cd. get_constrained_dofs store0 m1 = Inr (h', m', cd) \<and>
         dof_indices (h' 11) ! 6 \<in> set cd)"
    using add_constraint_unchecked[OF inv cur cinv present old, of "- 1"] by simp blast
  have big: "\<exists>m1. add_constraint ?M 1 9 = Inr m1 \<and>
      9 \<in> set (the (map_of (constraints m1) 1)) \<and>
      get_constrained_dofs store0 m1 = Inl IndexError"
    using add_constraint_unchecked[OF inv cur cinv present old, of 9] by simp blast
  from inv cinv present neg big show ?thesis by blast
qed

section \<open>The static solution\<close>

lemma solve_via_system:
  "StaticSolver_solve linalg_solve h m =
     (case static_system h m of
        Inl e \<Rightarrow> Inl e
      | Inr (h', m', K, F, cd, free) \<Rightarrow>
          if length free = 0 then Inr (h', m', zeros (total_dofs m'))
          else
            (case linalg_solve (ix K free free) (map (\<lambda>i. F ! i) free) of
               Inl e \<Rightarrow> Inl e
             | Inr u_f \<Rightarrow>
                 (case vec_assign (zeros (total_dofs m')) free u_f of
                    Inl e \<Rightarrow> Inl e
                  | Inr u \<Rightarrow> Inr (h', m', u))))"
proof -
  obtain h0 m0 where gen: "generate_dof_map h m = (h0, m0)" by force
  show ?thesis
  proof (cases "assemble_stiffness h0 m0")
    case (Inl e)
    then show ?thesis by (simp add: StaticSolver_solve_def static_system_def gen)
  next
    case (Inr r1)
    obtain h1 m1 K where r1: "r1 = (h1, m1, K)" by (cases r1)
    note a = Inr[unfolded r1]
    show ?thesis
    proof (cases "get_load_vector h1 m1")
      case (Inl e)
      then show ?thesis by (simp add: StaticSolver_solve_def static_system_def gen a)
    next
      case (Inr r2)
      obtain h2 m2 F where r2: "r2 = (h2, m2, F)" by (cases r2)
      note l = Inr[unfolded r2]
      show ?thesis
      proof (cases "get_constrained_dofs h2 m2")
        case (Inl e)
        then show ?thesis by (simp add: StaticSolver_solve_def static_system_def gen a l)
      next
        case (Inr r3)
        obtain h3 m3 cd where r3: "r3 = (h3, m3, cd)" by (cases r3)
        note c = Inr[unfolded r3]
        show ?thesis
          by (simp add: StaticSolver_solve_def static_system_def gen a l c Let_def)
      qed
    qed
  qed
qed

lemma ensure_generated: "dof_map_generated m \<Longrightarrow> ensure_dof_map h m = (h, m)"
  by (simp add: ensure_dof_map_def)

lemma assemble_stiffness_generated:
  assumes "dof_map_generated m" and "assemble_stiffness h m = Inr (h1, m1, K)"
  shows "h1 = h \<and> m1 = m"
  using assms by (auto simp: assemble_stiffness_def ensure_generated split: sum.splits)

lemma get_load_vector_generated:
  assumes "dof_map_generated m" and "get_load_vector h m = Inr (h1, m1, F)"
  shows "h1 = h \<and> m1 = m \<and> (loads m = [] \<longrightarrow> F = zeros (total_dofs m))"
  using assms by (auto simp: get_load_vector_def ensure_generated split: sum.splits)

lemma get_constrained_dofs_generated:
  assumes "dof_map_generated m" and "get_constrained_dofs h m = Inr (h1, m1, cd)"
  shows "h1 = h \<and> m1 = m"
  using assms by (auto simp: get_constrained_dofs_def ensure_generated split: sum.splits)

lemma static_system_facts:
  assumes inv: "model_inv h m"
    and sys: "static_system h m = Inr (h', m', K, F, cd, free)"
  shows "total_dofs m' = 7 * length (nodes m) \<and>
         free = setdiff1d_arange (total_dofs m') cd \<and>
         (loads m = [] \<longrightarrow> F = zeros (total_dofs m'))"
proof -
  obtain h0 m0 where gen: "generate_dof_map h m = (h0, m0)" by force
  note G = generate_dof_map_sorted[OF inv gen]
  from sys gen obtain h1 m1 where a: "assemble_stiffness h0 m0 = Inr (h1, m1, K)"
    by (auto simp: static_system_def split: sum.splits)
  have e1: "h1 = h0 \<and> m1 = m0" using assemble_stiffness_generated[OF _ a] G by simp
  from sys gen a obtain h2 m2 where l: "get_load_vector h1 m1 = Inr (h2, m2, F)"
    by (auto simp: static_system_def split: sum.splits)
  have e2: "h2 = h0 \<and> m2 = m0 \<and> (loads m0 = [] \<longrightarrow> F = zeros (total_dofs m0))"
    using get_load_vector_generated[OF _ l] G e1 by simp
  from sys gen a l have c: "get_constrained_dofs h2 m2 = Inr (h', m', cd)"
      and f: "free = setdiff1d_arange (total_dofs m') cd"
    by (auto simp: static_system_def split: sum.splits)
  have e3: "h' = h0 \<and> m' = m0" using get_constrained_dofs_generated[OF _ c] G e2 by simp
  show ?thesis using G e2 e3 f by simp
qed

lemma static_system_constrained:
  assumes inv: "model_inv h m"
    and sys: "static_system h m = Inr (h', m', K, F, cd, free)"
  shows "get_constrained_dofs h' m' = Inr (h', m', cd)"
proof -
  obtain h0 m0 where gen: "generate_dof_map h m = (h0, m0)" by force
  note G = generate_dof_map_sorted[OF inv gen]
  from sys gen obtain h1 m1 where a: "assemble_stiffness h0 m0 = Inr (h1, m1, K)"
    by (auto simp: static_system_def split: sum.splits)
  have e1: "h1 = h0 \<and> m1 = m0" using assemble_stiffness_generated[OF _ a] G by simp
  from sys gen a obtain h2 m2 where l: "get_load_vector h1 m1 = Inr (h2, m2, F)"
    by (auto simp: static_system_def split: sum.splits)
  have e2: "h2 = h0 \<and> m2 = m0"
    using get_load_vector_generated[OF _ l] G e1 by simp
  from sys gen a l have c: "get_constrained_dofs h2 m2 = Inr (h', m', cd)"
    by (auto simp: static_system_def split: sum.splits)
  have e3: "h' = h0 \<and> m' = m0" using get_constrained_dofs_generated[OF _ c] G e2 by simp
  show ?thesis using c e2 e3 by simp
qed

lemma fold_update_nth:
  assumes "distinct idx" and "\<forall>i \<in> set idx. i < length u0" and "length vals = length idx"
  shows "length (fold (\<lambda>(i, v) u'. u'[i := v]) (zip idx vals) u0) = length u0 \<and>
         map (\<lambda>i. fold (\<lambda>(i, v) u'. u'[i := v]) (zip idx vals) u0 ! i) idx = vals \<and>
         (\<forall>j. j \<notin> set idx \<longrightarrow> fold (\<lambda>(i, v) u'. u'[i := v]) (zip idx vals) u0 ! j = u0 ! j)"
  using assms
proof (induction idx arbitrary: vals u0)
  case Nil
  then show ?case by simp
next
  case (Cons i idx)
  then obtain v vs where vals: "vals = v # vs" by (cases vals) auto
  let ?u1 = "u0[i := v]"
  let ?r = "fold (\<lambda>(i, v) u'. u'[i := v]) (zip idx vs) ?u1"
  have d: "distinct idx" and r: "\<forall>j \<in> set idx. j < length ?u1" and l: "length vs = length idx"
    using Cons.prems vals by auto
  note IH = Cons.IH[OF d r l]
  have ni: "i \<notin> set idx" using Cons.prems(1) by simp
  have "?r ! i = ?u1 ! i" using IH ni by blast
  then have ri: "?r ! i = v" using Cons.prems(2) by simp
  have frame: "?r ! j = u0 ! j" if "j \<notin> set (i # idx)" for j
  proof -
    have "?r ! j = ?u1 ! j" using IH that by auto
    then show ?thesis using that by simp
  qed
  show ?case using IH ri frame by (simp add: vals)
qed

lemma setdiff1d_arange_facts:
  "distinct (setdiff1d_arange n cd)" "\<forall>i \<in> set (setdiff1d_arange n cd). i < n"
  "i \<in> set cd \<Longrightarrow> i \<notin> set (setdiff1d_arange n cd)"
  by (auto simp: setdiff1d_arange_def)

lemma vec_assign_facts:
  assumes "length u_f = length (setdiff1d_arange n cd)"
  shows "\<exists>u. vec_assign (zeros n) (setdiff1d_arange n cd) u_f = Inr u \<and> length u = n \<and>
          map (\<lambda>i. u ! i) (setdiff1d_arange n cd) = u_f \<and>
          (\<forall>j. j \<notin> set (setdiff1d_arange n cd) \<longrightarrow> j < n \<longrightarrow> u ! j = Fin 0)"
proof -
  let ?free = "setdiff1d_arange n cd"
  have r: "\<forall>i \<in> set ?free. i < length (zeros n)"
    using setdiff1d_arange_facts(2)[of n cd] by (simp add: zeros_def)
  note F = fold_update_nth[OF setdiff1d_arange_facts(1) r assms]
  show ?thesis
    using F assms by (simp add: vec_assign_def zeros_def)
qed

text \<open>
  Claim C2. For every model whose free-DOF stiffness sub-matrix \<open>K_ff\<close> is invertible,
  \<open>StaticSolver.solve\<close> returns a displacement vector of length seven times the number of
  nodes whose entries at the constrained global DOF indices are zero and whose entries at
  the free DOF indices solve \<open>K_ff \<cdot> u_f = F_f\<close>; and when every DOF is constrained (no free
  DOF) it returns the all-zero vector. Here \<open>cd\<close> is the list that \<open>get_constrained_dofs\<close>
  returns on the generated DOF map, the free DOFs are the indices below \<open>7 n\<close> that are not
  in \<open>cd\<close>, in ascending order, and there is no free DOF exactly when every index below
  \<open>7 n\<close> is constrained. The model is one whose assembly succeeds (\<open>static_system\<close>
  returns the parts), and \<open>np.linalg.solve\<close> is taken to solve nonsingular systems.
\<close>

theorem StaticSolver_solve_partitioned:
  assumes inv: "model_inv h m"
    and sys: "static_system h m = Inr (h', m', K, F, cd, free)"
    and ns: "free \<noteq> [] \<longrightarrow> nonsingular (ix K free free)"
    and solver: "free \<noteq> [] \<longrightarrow> nonsingular (ix K free free) \<longrightarrow>
       (\<exists>u_f. linalg_solve (ix K free free) (map (\<lambda>i. F ! i) free) = Inr u_f \<and>
              length u_f = length free \<and>
              matvec (ix K free free) u_f = map (\<lambda>i. F ! i) free)"
  shows "get_constrained_dofs h' m' = Inr (h', m', cd) \<and>
         free = filter (\<lambda>i. i \<notin> set cd) [0..<7 * length (nodes m)] \<and>
         ((free = []) = (\<forall>i < 7 * length (nodes m). i \<in> set cd)) \<and>
         (\<exists>u. StaticSolver_solve linalg_solve h m = Inr (h', m', u) \<and>
           length u = 7 * length (nodes m) \<and>
           (\<forall>i \<in> set cd. i < length u \<longrightarrow> u ! i = Fin 0) \<and>
           (free \<noteq> [] \<longrightarrow> matvec (ix K free free) (map (\<lambda>i. u ! i) free) = map (\<lambda>i. F ! i) free) \<and>
           (free = [] \<longrightarrow> u = zeros (7 * length (nodes m))))"
proof -
  note S = static_system_facts[OF inv sys]
  let ?n = "7 * length (nodes m)"
  have tot: "total_dofs m' = ?n" and fr: "free = setdiff1d_arange ?n cd" using S by simp_all
  have part: "free = filter (\<lambda>i. i \<notin> set cd) [0..<?n]"
    using fr by (simp add: setdiff1d_arange_def)
  have empty: "(free = []) = (\<forall>i < ?n. i \<in> set cd)"
    unfolding part by (auto simp: filter_empty_conv)
  have main: "\<exists>u. StaticSolver_solve linalg_solve h m = Inr (h', m', u) \<and>
           length u = ?n \<and>
           (\<forall>i \<in> set cd. i < length u \<longrightarrow> u ! i = Fin 0) \<and>
           (free \<noteq> [] \<longrightarrow> matvec (ix K free free) (map (\<lambda>i. u ! i) free) = map (\<lambda>i. F ! i) free) \<and>
           (free = [] \<longrightarrow> u = zeros ?n)"
  proof (cases "free = []")
    case True
    have "StaticSolver_solve linalg_solve h m = Inr (h', m', zeros ?n)"
      by (simp add: solve_via_system sys True tot)
    then show ?thesis using True by (simp add: zeros_def)
  next
    case False
    with ns solver obtain u_f where
      s: "linalg_solve (ix K free free) (map (\<lambda>i. F ! i) free) = Inr u_f"
      and len: "length u_f = length free"
      and eq: "matvec (ix K free free) u_f = map (\<lambda>i. F ! i) free"
      by blast
    from vec_assign_facts[of u_f ?n cd] len fr obtain u where
      va: "vec_assign (zeros ?n) free u_f = Inr u" and lu: "length u = ?n"
      and mu: "map (\<lambda>i. u ! i) free = u_f"
      and zu: "\<forall>j. j \<notin> set free \<longrightarrow> j < ?n \<longrightarrow> u ! j = Fin 0"
      by auto
    have "StaticSolver_solve linalg_solve h m = Inr (h', m', u)"
      using False by (simp add: solve_via_system sys tot s va)
    moreover have "\<forall>i \<in> set cd. i < length u \<longrightarrow> u ! i = Fin 0"
      using zu lu fr setdiff1d_arange_facts(3)[of _ cd ?n] by auto
    ultimately show ?thesis using lu mu eq False by auto
  qed
  from static_system_constrained[OF inv sys] part empty main show ?thesis by blast
qed

text \<open>
  Claim C7. For every model with no applied loads, any constraint set, and a nonsingular
  free-DOF stiffness sub-matrix, \<open>StaticSolver.solve\<close> returns the all-zero displacement
  vector.
\<close>

theorem StaticSolver_solve_no_loads:
  assumes inv: "model_inv h m"
    and sys: "static_system h m = Inr (h', m', K, F, cd, free)"
    and noloads: "loads m = []"
    and ns: "free \<noteq> [] \<longrightarrow> nonsingular (ix K free free)"
    and solver: "free \<noteq> [] \<longrightarrow> nonsingular (ix K free free) \<longrightarrow>
       (\<exists>u_f. linalg_solve (ix K free free) (map (\<lambda>i. F ! i) free) = Inr u_f \<and>
              length u_f = length free \<and>
              matvec (ix K free free) u_f = map (\<lambda>i. F ! i) free)"
  shows "StaticSolver_solve linalg_solve h m = Inr (h', m', zeros (7 * length (nodes m)))"
proof -
  note S = static_system_facts[OF inv sys]
  let ?n = "7 * length (nodes m)"
  have tot: "total_dofs m' = ?n" and fr: "free = setdiff1d_arange ?n cd"
    and F: "F = zeros ?n" using S noloads by simp_all
  show ?thesis
  proof (cases "free = []")
    case True
    then show ?thesis by (simp add: solve_via_system sys tot)
  next
    case False
    with ns solver obtain u_f where
      s: "linalg_solve (ix K free free) (map (\<lambda>i. F ! i) free) = Inr u_f"
      and len: "length u_f = length free"
      and eq: "matvec (ix K free free) u_f = map (\<lambda>i. F ! i) free"
      by blast
    have Ff: "map (\<lambda>i. F ! i) free = zeros (length free)"
      using setdiff1d_arange_facts(2)[of ?n cd]
      by (auto simp: F fr zeros_def intro!: nth_equalityI)
    have lk: "length (ix K free free) = length free" by (simp add: ix_def)
    have "nonsingular (ix K free free)" using ns False by simp
    then have uf: "u_f = zeros (length free)"
      unfolding nonsingular_def using len eq Ff lk by simp
    from vec_assign_facts[of u_f ?n cd] len fr obtain u where
      va: "vec_assign (zeros ?n) free u_f = Inr u" and lu: "length u = ?n"
      and mu: "map (\<lambda>i. u ! i) free = u_f"
      and zu: "\<forall>j. j \<notin> set free \<longrightarrow> j < ?n \<longrightarrow> u ! j = Fin 0"
      by auto
    have "u ! j = Fin 0" if "j < ?n" for j
    proof (cases "j \<in> set free")
      case True
      then obtain k where k: "k < length free" "free ! k = j"
        unfolding in_set_conv_nth by blast
      have "map (\<lambda>i. u ! i) free ! k = zeros (length free) ! k" using mu uf by simp
      then show ?thesis using k by (simp add: zeros_def)
    next
      case False
      then show ?thesis using zu that by blast
    qed
    then have "u = zeros ?n" using lu by (auto simp: zeros_def intro!: nth_equalityI)
    moreover have "StaticSolver_solve linalg_solve h m = Inr (h', m', u)"
      using False by (simp add: solve_via_system sys tot s va)
    ultimately show ?thesis by simp
  qed
qed

lemma store1_simps:
  "store1 11 = (Node_init 1 0 0 0)\<lparr>dof_indices := [0..<7]\<rparr>"
  "store1 12 = (Node_init 2 1 0 0)\<lparr>dof_indices := [7..<14]\<rparr>"
  by (simp_all add: store1_def)

lemma generate_cantilever:
  "generate_dof_map store0 (cantilever cs ls) = (store1, generated (cantilever cs ls))"
  by (simp add: generate_dof_map_def cantilever_def assign_dofs_def Let_def sort_key_def
      store0_def store1_def Node_init_def generated_def)

lemma upt_blocks: "[0..<7] = [0, 1, 2, 3, 4, 5, 6]" "[7..<14] = [7, 8, 9, 10, 11, 12, 13]"
  "[0..<14] = [0, 1, 2, 3, 4, 5, 6, 7, 8, 9, 10, 11, 12, 13]"
  by (simp_all add: upt_rec)

lemma length_beam0_store1: "length_el store1 beam0 = Fin 1"
  by (simp add: length_el_def coords_def vec_sub_def np_arith float64_small norm_axis
      beam0_simps store1_simps Node_init_def)

lemma T_beam0: "transformation_matrix store1 beam0 = eye 14"
  by (rule transformation_matrix_eye) (simp_all add: beam0_simps store1_simps Node_init_def)

lemma k_beam0_eval: "local_stiffness_matrix store1 beam0 = k_beam0"
  by (simp add: local_stiffness_matrix_def length_beam0_store1 Let_def array_defs hermite_bending_def
      hermite_geometric_def np_arith float64_small eval_nat_numeral beam0_simps material0_def
      section0_def k_beam0_def)

lemma K_beam0_eval: "global_stiffness_matrix store1 beam0 = k_beam0"
  by (simp add: global_stiffness_matrix_def k_beam0_eval T_beam0 Let_def k_beam0_def
      eye_def ncols_def column_def transpose_m_def matmul_def dot_def np_sum_def upt_rec
      float64_small eval_nat_numeral)


lemma generated_simps:
  "nodes (generated (cantilever cs ls)) = [(1, 11), (2, 12)]"
  "elements (generated (cantilever cs ls)) = [beam0]"
  "constraints (generated (cantilever cs ls)) = cs"
  "loads (generated (cantilever cs ls)) = ls"
  "total_dofs (generated (cantilever cs ls)) = 14"
  "dof_map_generated (generated (cantilever cs ls))"
  by (simp_all add: generated_def cantilever_def)

lemma element_dofs_beam0: "element_dofs store1 beam0 = [0, 1, 2, 3, 4, 5, 6, 7, 8, 9, 10, 11, 12, 13]"
  by (simp add: element_dofs_def beam0_simps store1_simps upt_blocks)

lemma assemble_cantilever:
  "assemble_stiffness store1 (generated (cantilever cs ls))
     = Inr (store1, generated (cantilever cs ls), k_beam0)"
  by (simp add: assemble_stiffness_def ensure_generated generated_simps scatter_add_def
      element_dofs_beam0 K_beam0_eval zeros2_def ix_add_def k_beam0_def float64_small
      eval_nat_numeral)


lemma constrained_axial:
  "get_constrained_dofs store1 (generated (cantilever axial_constraints ls))
     = Inr (store1, generated (cantilever axial_constraints ls), axial_cd)"
  by (simp add: get_constrained_dofs_def ensure_generated generated_simps axial_constraints_def
      store1_simps upt_blocks py_index_def unique_def axial_cd_def)

lemma scatter_axial:
  "vec_scatter_add (zeros 14) [7, 8, 9, 10, 11, 12, 13]
      [Fin 100, Fin 0, Fin 0, Fin 0, Fin 0, Fin 0, Fin 0] = Inr axial_F"
  by (simp add: vec_scatter_add_def zeros_def axial_F_def float64_small eval_nat_numeral)

lemma load_axial:
  "get_load_vector store1 (generated axial_model) = Inr (store1, generated axial_model, axial_F)"
  by (simp add: get_load_vector_def axial_model_def ensure_generated generated_simps
      store1_simps upt_blocks scatter_axial)

lemma load_unloaded:
  "get_load_vector store1 (generated unloaded_model)
     = Inr (store1, generated unloaded_model, zeros 14)"
  by (simp add: get_load_vector_def unloaded_model_def ensure_generated generated_simps)

lemma free_axial: "setdiff1d_arange 14 axial_cd = [7]"
  by (simp add: setdiff1d_arange_def axial_cd_def upt_blocks)

lemma static_system_cantilever:
  assumes "get_load_vector store1 (generated (cantilever axial_constraints ls))
             = Inr (store1, generated (cantilever axial_constraints ls), F)"
  shows "static_system store0 (cantilever axial_constraints ls)
     = Inr (store1, generated (cantilever axial_constraints ls), k_beam0, F, axial_cd, [7])"
  by (simp add: static_system_def generate_cantilever assemble_cantilever assms constrained_axial
      generated_simps free_axial)

lemma static_system_axial:
  "static_system store0 axial_model
     = Inr (store1, generated axial_model, k_beam0, axial_F, axial_cd, [7])"
  using static_system_cantilever[OF load_axial[unfolded axial_model_def]]
  by (simp add: axial_model_def)

lemma static_system_unloaded:
  "static_system store0 unloaded_model
     = Inr (store1, generated unloaded_model, k_beam0, zeros 14, axial_cd, [7])"
  using static_system_cantilever[OF load_unloaded[unfolded unloaded_model_def]]
  by (simp add: unloaded_model_def)

lemma K_ff_axial: "ix k_beam0 [7] [7] = [[Fin 100000]]"
  by (simp add: ix_def k_beam0_def eval_nat_numeral)

lemma nonsingular_1x1: "a \<noteq> 0 \<Longrightarrow> nonsingular [[Fin a]]"
proof -
  assume a: "a \<noteq> 0"
  have "x = [Fin 0]" if "length x = 1" "matvec [[Fin a]] x = [Fin 0]" for x
  proof -
    from that(1) obtain e where x: "x = [e]" by (cases x) auto
    show ?thesis using that(2) a
      by (cases e) (auto simp: x matvec_def dot_def np_sum_def signed_inf_def float64_def
          split: if_splits)
  qed
  then show ?thesis by (simp add: nonsingular_def zeros_def)
qed

lemma solve_unique_1x1:
  assumes "matvec [[Fin a]] [e] = [Fin f]" and "a \<noteq> 0"
  shows "e = Fin (f / a)"
  using assms
  by (cases e) (auto simp: matvec_def dot_def np_sum_def signed_inf_def float64_def field_simps
      split: if_splits)


theorem StaticSolver_solve_partitioned_witness:
  "model_inv store0 axial_model \<and>
   static_system store0 axial_model
     = Inr (store1, generated axial_model, k_beam0, axial_F, axial_cd, [7]) \<and>
   nonsingular (ix k_beam0 [7] [7]) \<and>
   solve_1x1 (ix k_beam0 [7] [7]) (map (\<lambda>i. axial_F ! i) [7]) = Inr [Fin (1 / 1000)] \<and>
   get_constrained_dofs store1 (generated axial_model)
     = Inr (store1, generated axial_model, axial_cd) \<and>
   [7] = filter (\<lambda>i. i \<notin> set axial_cd) [0..<7 * length (nodes axial_model)] \<and>
   (\<exists>u. StaticSolver_solve solve_1x1 store0 axial_model = Inr (store1, generated axial_model, u) \<and>
        length u = 14 \<and> u ! 0 = Fin 0 \<and> u ! 13 = Fin 0 \<and> u ! 7 = Fin (1 / 1000))"
proof -
  have inv: "model_inv store0 axial_model"
    unfolding axial_model_def by (rule model_inv_cantilever)
  have ns: "nonsingular (ix k_beam0 [7] [7])"
    by (simp add: K_ff_axial nonsingular_1x1)
  have Ff: "axial_F ! 7 = Fin 100"
    by (simp add: axial_F_def eval_nat_numeral)
  have sol: "solve_1x1 (ix k_beam0 [7] [7]) (map (\<lambda>i. axial_F ! i) [7]) = Inr [Fin (1 / 1000)]"
    by (simp add: K_ff_axial Ff np_arith float64_small)
  have contract: "[7::nat] \<noteq> [] \<longrightarrow> nonsingular (ix k_beam0 [7] [7]) \<longrightarrow>
       (\<exists>u_f. solve_1x1 (ix k_beam0 [7] [7]) (map (\<lambda>i. axial_F ! i) [7]) = Inr u_f \<and>
              length u_f = length [7::nat] \<and>
              matvec (ix k_beam0 [7] [7]) u_f = map (\<lambda>i. axial_F ! i) [7])"
    using sol by (simp add: K_ff_axial Ff float64_small matvec_def dot_def np_sum_def)
  have ns': "[7::nat] \<noteq> [] \<longrightarrow> nonsingular (ix k_beam0 [7] [7])" using ns by simp
  note T = StaticSolver_solve_partitioned[where linalg_solve = solve_1x1,
      OF inv static_system_axial ns' contract]
  from T have gc: "get_constrained_dofs store1 (generated axial_model)
     = Inr (store1, generated axial_model, axial_cd)"
    and part: "[7] = filter (\<lambda>i. i \<notin> set axial_cd) [0..<7 * length (nodes axial_model)]"
    by blast+
  from T obtain u where u: "StaticSolver_solve solve_1x1 store0 axial_model = Inr (store1, generated axial_model, u)"
    and lu: "length u = 7 * length (nodes axial_model)"
    and zu: "\<forall>i \<in> set axial_cd. i < length u \<longrightarrow> u ! i = Fin 0"
    and su: "matvec (ix k_beam0 [7] [7]) (map (\<lambda>i. u ! i) [7]) = map (\<lambda>i. axial_F ! i) [7]"
    by blast
  have l14: "length u = 14" using lu by (simp add: axial_model_def cantilever_def)
  have "(0::nat) \<in> set axial_cd" "(13::nat) \<in> set axial_cd" by (simp_all add: axial_cd_def)
  with zu l14 have z: "u ! 0 = Fin 0" "u ! 13 = Fin 0" by simp_all
  have "matvec [[Fin 100000]] [u ! 7] = [Fin 100]" using su by (simp add: K_ff_axial Ff)
  then have "u ! 7 = Fin (100 / 100000)" by (rule solve_unique_1x1) simp
  then have u7: "u ! 7 = Fin (1 / 1000)" by simp
  from inv static_system_axial ns sol gc part u l14 z u7 show ?thesis by blast
qed

theorem StaticSolver_solve_no_loads_witness:
  "model_inv store0 unloaded_model \<and> loads unloaded_model = [] \<and>
   static_system store0 unloaded_model
     = Inr (store1, generated unloaded_model, k_beam0, zeros 14, axial_cd, [7]) \<and>
   nonsingular (ix k_beam0 [7] [7]) \<and>
   StaticSolver_solve solve_1x1 store0 unloaded_model
     = Inr (store1, generated unloaded_model, zeros 14)"
proof -
  have inv: "model_inv store0 unloaded_model"
    unfolding unloaded_model_def by (rule model_inv_cantilever)
  have nl: "loads unloaded_model = []" by (simp add: unloaded_model_def cantilever_def)
  have ns: "nonsingular (ix k_beam0 [7] [7])"
    by (simp add: K_ff_axial nonsingular_1x1)
  have Ff: "zeros 14 ! 7 = Fin 0"
    by (simp add: zeros_def)
  have contract: "[7::nat] \<noteq> [] \<longrightarrow> nonsingular (ix k_beam0 [7] [7]) \<longrightarrow>
       (\<exists>u_f. solve_1x1 (ix k_beam0 [7] [7]) (map (\<lambda>i. zeros 14 ! i) [7]) = Inr u_f \<and>
              length u_f = length [7::nat] \<and>
              matvec (ix k_beam0 [7] [7]) u_f = map (\<lambda>i. zeros 14 ! i) [7])"
    by (simp add: K_ff_axial Ff np_arith float64_small matvec_def dot_def np_sum_def)
  have ns': "[7::nat] \<noteq> [] \<longrightarrow> nonsingular (ix k_beam0 [7] [7])" using ns by simp
  have "StaticSolver_solve solve_1x1 store0 unloaded_model
     = Inr (store1, generated unloaded_model, zeros (7 * length (nodes unloaded_model)))"
    by (rule StaticSolver_solve_no_loads[where linalg_solve = solve_1x1,
        OF inv static_system_unloaded nl ns' contract])
  then have "StaticSolver_solve solve_1x1 store0 unloaded_model
     = Inr (store1, generated unloaded_model, zeros 14)"
    by (simp add: unloaded_model_def cantilever_def)
  with inv nl static_system_unloaded ns show ?thesis by blast
qed

end
